theory Spec2Isabelle
  imports Main "HOL-Library.Word"
begin

unbundle bit_operations_syntax

section \<open>EADC driver (eadc.c)\<close>

type_synonym u32 = "32 word"

subsection \<open>Constants of the device headers\<close>

text \<open>
  eadc.c includes NuMicro.h, which is not among the sources. The register-field masks
  and the error value it defines are therefore parameters of the model: one field of
  \<open>eadc_defs\<close> per macro, under the macro's name. \<open>EADC_TIMEOUT_ERR\<close> is an
  \<open>int32_t\<close> value, kept as its 32-bit pattern.
\<close>

record eadc_defs =
  CLK_EADCSEL_EADC0SEL_Msk :: u32
  CLK_EADCSEL_EADC0SEL_PCLK0 :: u32
  CLK_EADCDIV_EADC0DIV_Msk :: u32
  EADC_CTL_ADCEN_Msk :: u32
  EADC_CTL_ADCRST_Msk :: u32
  EADC_CTL_DIFFEN_Msk :: u32
  EADC_CALSR_CALIF_Msk :: u32
  EADC_CALCTL_CAL_Msk :: u32
  EADC_TIMEOUT_ERR :: u32
  EADC_SCTL_EXTFEN_Msk :: u32
  EADC_SCTL_EXTREN_Msk :: u32
  EADC_SCTL_TRGSEL_Msk :: u32
  EADC_SCTL_CHSEL_Msk :: u32
  EADC_SCTL_TRGDLDIV_Msk :: u32
  EADC_SCTL_TRGDLCNT_Msk :: u32
  EADC_SCTL_TRGDLCNT_Pos :: nat
  EADC_SCTL_EXTSMPT_Msk :: u32
  EADC_SCTL_EXTSMPT_Pos :: nat

text \<open>
  One instance of the constants, used wherever a theorem is evaluated at a concrete
  input: single-bit flags ADCEN (bit 0), ADCRST (bit 1) and DIFFEN (bit 8) of CTL, CALIF (bit 16) of
  CALSR, CAL (bit 1) of CALCTL, a three-bit EADC0SEL field and an eight-bit EADC0DIV
  field at bit 0, and the timeout value -1.
\<close>

definition sample_defs :: eadc_defs where
  "sample_defs = \<lparr>
     CLK_EADCSEL_EADC0SEL_Msk = 0x7,
     CLK_EADCSEL_EADC0SEL_PCLK0 = 0x2,
     CLK_EADCDIV_EADC0DIV_Msk = 0xFF,
     EADC_CTL_ADCEN_Msk = 0x1,
     EADC_CTL_ADCRST_Msk = 0x2,
     EADC_CTL_DIFFEN_Msk = 0x100,
     EADC_CALSR_CALIF_Msk = 0x10000,
     EADC_CALCTL_CAL_Msk = 0x2,
     EADC_TIMEOUT_ERR = 0xFFFFFFFF,
     EADC_SCTL_EXTFEN_Msk = 0x20,
     EADC_SCTL_EXTREN_Msk = 0x10,
     EADC_SCTL_TRGSEL_Msk = 0x3F0000,
     EADC_SCTL_CHSEL_Msk = 0x1F,
     EADC_SCTL_TRGDLDIV_Msk = 0xC0,
     EADC_SCTL_TRGDLCNT_Msk = 0xFF00,
     EADC_SCTL_TRGDLCNT_Pos = 8,
     EADC_SCTL_EXTSMPT_Msk = 0xFF000000,
     EADC_SCTL_EXTSMPT_Pos = 24 \<rparr>"

subsection \<open>Registers and machine state\<close>

text \<open>
  \<open>EADC_T\<close> holds the registers of the converter block that the driver touches.
  \<open>SCTL\<close> has 19 elements (modules 0 to 18) and \<open>SCTL19\<close> has 9 (modules 19 to 27);
  only these elements of the two maps are ever read or written. What an index past the
  end of an array reaches is decided by its address (see \<open>locate\<close> below).
\<close>

record EADC_T =
  CTL :: u32
  CALSR :: u32
  CALCTL :: u32
  SCTL :: "nat \<Rightarrow> u32"
  SCTL19 :: "nat \<Rightarrow> u32"

definition SCTL19_len :: nat where
  "SCTL19_len = 9"

record CLK_T =
  EADCSEL :: u32
  EADCDIV :: u32

text \<open>
  Every location the driver touches is a 32-bit word at a word-aligned byte address. A
  \<open>waddr\<close> is such an address divided by 4, a 30-bit number: adding an index to a base
  in \<open>waddr\<close> wraps exactly where \<open>base + 4 * index\<close> wraps in the 32-bit address space.
\<close>

type_synonym waddr = "30 word"

text \<open>
  The locations: the named registers, the error code, the elements of the two arrays,
  and every other word of the address space, under its address.
\<close>

datatype reg = R_EADCSEL | R_EADCDIV | R_CTL | R_CALSR | R_CALCTL | R_SCTL nat | R_SCTL19 nat
  | R_ErrCode | R_MEM waddr

text \<open>
  The machine: the clock controller, the converter block, the global error code (an
  \<open>int32_t\<close>, kept as its 32-bit pattern), the log of register writes in program
  order (the register and the value stored), the number of polling reads made so
  far, and the rest of the address space.
\<close>

record machine =
  clk :: CLK_T
  eadc :: EADC_T
  g_EADC_i32ErrCode :: u32
  writes :: "(reg \<times> u32) list"
  ticks :: nat
  mem :: "waddr \<Rightarrow> u32"

definition write_EADCSEL :: "u32 \<Rightarrow> machine \<Rightarrow> machine" where
  "write_EADCSEL v s = s\<lparr>clk := (clk s)\<lparr>EADCSEL := v\<rparr>, writes := writes s @ [(R_EADCSEL, v)]\<rparr>"

definition write_EADCDIV :: "u32 \<Rightarrow> machine \<Rightarrow> machine" where
  "write_EADCDIV v s = s\<lparr>clk := (clk s)\<lparr>EADCDIV := v\<rparr>, writes := writes s @ [(R_EADCDIV, v)]\<rparr>"

definition write_CTL :: "u32 \<Rightarrow> machine \<Rightarrow> machine" where
  "write_CTL v s = s\<lparr>eadc := (eadc s)\<lparr>CTL := v\<rparr>, writes := writes s @ [(R_CTL, v)]\<rparr>"

definition write_CALSR :: "u32 \<Rightarrow> machine \<Rightarrow> machine" where
  "write_CALSR v s = s\<lparr>eadc := (eadc s)\<lparr>CALSR := v\<rparr>, writes := writes s @ [(R_CALSR, v)]\<rparr>"

definition write_CALCTL :: "u32 \<Rightarrow> machine \<Rightarrow> machine" where
  "write_CALCTL v s = s\<lparr>eadc := (eadc s)\<lparr>CALCTL := v\<rparr>, writes := writes s @ [(R_CALCTL, v)]\<rparr>"

subsection \<open>Access through a computed address\<close>

text \<open>
  Where the words lie is fixed by the device headers and the linker, neither of which is
  among the sources: the addresses are parameters. \<open>addr_SCTL\<close> and \<open>addr_SCTL19\<close> are
  the addresses of the first elements of the arrays.
\<close>

record eadc_layout =
  addr_EADCSEL :: waddr
  addr_EADCDIV :: waddr
  addr_CTL :: waddr
  addr_CALSR :: waddr
  addr_CALCTL :: waddr
  addr_ErrCode :: waddr
  addr_SCTL :: waddr
  addr_SCTL19 :: waddr

text \<open>The location an address reaches.\<close>

definition locate :: "eadc_layout \<Rightarrow> waddr \<Rightarrow> reg" where
  "locate lay a =
     (if a = addr_EADCSEL lay then R_EADCSEL
      else if a = addr_EADCDIV lay then R_EADCDIV
      else if a = addr_CTL lay then R_CTL
      else if a = addr_CALSR lay then R_CALSR
      else if a = addr_CALCTL lay then R_CALCTL
      else if a = addr_ErrCode lay then R_ErrCode
      else if unat (a - addr_SCTL lay) < 19 then R_SCTL (unat (a - addr_SCTL lay))
      else if unat (a - addr_SCTL19 lay) < SCTL19_len then R_SCTL19 (unat (a - addr_SCTL19 lay))
      else R_MEM a)"

fun load :: "reg \<Rightarrow> machine \<Rightarrow> u32" where
  "load R_EADCSEL s = EADCSEL (clk s)"
| "load R_EADCDIV s = EADCDIV (clk s)"
| "load R_CTL s = CTL (eadc s)"
| "load R_CALSR s = CALSR (eadc s)"
| "load R_CALCTL s = CALCTL (eadc s)"
| "load (R_SCTL i) s = SCTL (eadc s) i"
| "load (R_SCTL19 i) s = SCTL19 (eadc s) i"
| "load R_ErrCode s = g_EADC_i32ErrCode s"
| "load (R_MEM a) s = mem s a"

text \<open>A store through a computed address is logged under the location it reaches.\<close>

fun store :: "reg \<Rightarrow> u32 \<Rightarrow> machine \<Rightarrow> machine" where
  "store R_EADCSEL v s = write_EADCSEL v s"
| "store R_EADCDIV v s = write_EADCDIV v s"
| "store R_CTL v s = write_CTL v s"
| "store R_CALSR v s = write_CALSR v s"
| "store R_CALCTL v s = write_CALCTL v s"
| "store (R_SCTL i) v s =
     s\<lparr>eadc := (eadc s)\<lparr>SCTL := (SCTL (eadc s))(i := v)\<rparr>,
       writes := writes s @ [(R_SCTL i, v)]\<rparr>"
| "store (R_SCTL19 i) v s =
     s\<lparr>eadc := (eadc s)\<lparr>SCTL19 := (SCTL19 (eadc s))(i := v)\<rparr>,
       writes := writes s @ [(R_SCTL19 i, v)]\<rparr>"
| "store R_ErrCode v s = s\<lparr>g_EADC_i32ErrCode := v, writes := writes s @ [(R_ErrCode, v)]\<rparr>"
| "store (R_MEM a) v s = s\<lparr>mem := (mem s)(a := v), writes := writes s @ [(R_MEM a, v)]\<rparr>"

definition load_word :: "eadc_layout \<Rightarrow> waddr \<Rightarrow> machine \<Rightarrow> u32" where
  "load_word lay a s = load (locate lay a) s"

definition store_word :: "eadc_layout \<Rightarrow> waddr \<Rightarrow> u32 \<Rightarrow> machine \<Rightarrow> machine" where
  "store_word lay a v s = store (locate lay a) v s"

subsection \<open>The hardware\<close>

text \<open>
  The converter's registers are volatile: the hardware changes them while the driver
  polls. A hardware behaviour is any function that, given the number of the polling
  read, turns the register block before the read into the block the read sees. The
  driver's polling loops give the hardware its turn before each evaluation of the loop
  condition; the reads of the straight-line code see the block as the last turn or
  store left it. The hardware does not touch the clock controller or the error code.
\<close>

type_synonym hardware = "nat \<Rightarrow> EADC_T \<Rightarrow> EADC_T"

definition hw_turn :: "hardware \<Rightarrow> machine \<Rightarrow> machine" where
  "hw_turn hw s = s\<lparr>eadc := hw (ticks s) (eadc s), ticks := Suc (ticks s)\<rparr>"

subsection \<open>EADC\_Calibration\<close>

text \<open>
  The first loop (lines 90 to 97): while ADCRST reads as set, pre-decrement the
  countdown; when it reaches zero record the timeout and break. The result pairs the
  state with \<open>True\<close> when the loop was left through the break.
\<close>

function wait_reset :: "eadc_defs \<Rightarrow> hardware \<Rightarrow> u32 \<Rightarrow> machine \<Rightarrow> bool \<times> machine" where
  "wait_reset d hw u32Delay s =
     (let s1 = hw_turn hw s in
      if CTL (eadc s1) AND EADC_CTL_ADCRST_Msk d = EADC_CTL_ADCRST_Msk d then
        (if u32Delay - 1 = 0
         then (True, s1\<lparr>g_EADC_i32ErrCode := EADC_TIMEOUT_ERR d\<rparr>)
         else wait_reset d hw (u32Delay - 1) s1)
      else (False, s1))"
  by pat_completeness auto
termination
proof (relation "measure (\<lambda>(d, hw, u32Delay, s). unat (u32Delay - 1))")
  show "wf (measure (\<lambda>(d, hw, u32Delay, s). unat (u32Delay - 1)))"
    by simp
next
  fix d :: eadc_defs and hw :: hardware and u32Delay :: u32 and s x :: machine
  assume "u32Delay - 1 \<noteq> 0"
  then have "unat (u32Delay - 1 - 1) < unat (u32Delay - 1)"
    using unat_minus_one [of "u32Delay - 1"] unat_gt_0 [of "u32Delay - 1"] by arith
  then show "((d, hw, u32Delay - 1, x), (d, hw, u32Delay, s))
      \<in> measure (\<lambda>(d, hw, u32Delay, s). unat (u32Delay - 1))"
    by simp
qed

declare wait_reset.simps [simp del]

text \<open>
  The second loop (lines 104 to 111): while CALIF reads as clear, pre-decrement the
  countdown; when it reaches zero record the timeout and break.
\<close>

function wait_calif :: "eadc_defs \<Rightarrow> hardware \<Rightarrow> u32 \<Rightarrow> machine \<Rightarrow> bool \<times> machine" where
  "wait_calif d hw u32Delay s =
     (let s1 = hw_turn hw s in
      if CALSR (eadc s1) AND EADC_CALSR_CALIF_Msk d \<noteq> EADC_CALSR_CALIF_Msk d then
        (if u32Delay - 1 = 0
         then (True, s1\<lparr>g_EADC_i32ErrCode := EADC_TIMEOUT_ERR d\<rparr>)
         else wait_calif d hw (u32Delay - 1) s1)
      else (False, s1))"
  by pat_completeness auto
termination
proof (relation "measure (\<lambda>(d, hw, u32Delay, s). unat (u32Delay - 1))")
  show "wf (measure (\<lambda>(d, hw, u32Delay, s). unat (u32Delay - 1)))"
    by simp
next
  fix d :: eadc_defs and hw :: hardware and u32Delay :: u32 and s x :: machine
  assume "u32Delay - 1 \<noteq> 0"
  then have "unat (u32Delay - 1 - 1) < unat (u32Delay - 1)"
    using unat_minus_one [of "u32Delay - 1"] unat_gt_0 [of "u32Delay - 1"] by arith
  then show "((d, hw, u32Delay - 1, x), (d, hw, u32Delay, s))
      \<in> measure (\<lambda>(d, hw, u32Delay, s). unat (u32Delay - 1))"
    by simp
qed

declare wait_calif.simps [simp del]

text \<open>Lines 71 to 82: clear the error code, reprogram the clock, enable the converter.\<close>

definition calib_setup :: "eadc_defs \<Rightarrow> machine \<Rightarrow> machine" where
  "calib_setup d s =
     (let s1 = s\<lparr>g_EADC_i32ErrCode := 0\<rparr>;
          s2 = write_EADCSEL ((EADCSEL (clk s1) AND CLK_EADCSEL_EADC0SEL_Msk d)
                               OR CLK_EADCSEL_EADC0SEL_PCLK0 d) s1;
          s3 = write_EADCDIV (EADCDIV (clk s2) AND CLK_EADCDIV_EADC0DIV_Msk d) s2
      in write_CTL (CTL (eadc s3) OR EADC_CTL_ADCEN_Msk d) s3)"

text \<open>
  Modelled from the spec: the macro \<open>EADC_CONV_RESET\<close> of eadc.h, which is not among
  the sources; the spec's "issue a reset command". It sets ADCRST in CTL.
\<close>

definition EADC_CONV_RESET :: "eadc_defs \<Rightarrow> machine \<Rightarrow> machine" where
  "EADC_CONV_RESET d s = write_CTL (CTL (eadc s) OR EADC_CTL_ADCRST_Msk d) s"

text \<open>Lines 88 to 97: the reset command and the wait for ADCRST to clear.\<close>

definition calib_reset :: "eadc_defs \<Rightarrow> hardware \<Rightarrow> u32 \<Rightarrow> machine \<Rightarrow> bool \<times> machine" where
  "calib_reset d hw SystemCoreClock s = wait_reset d hw SystemCoreClock (EADC_CONV_RESET d s)"

text \<open>Lines 99 and 100: write 1 to CALIF, then set CAL in CALCTL.\<close>

definition calib_start :: "eadc_defs \<Rightarrow> machine \<Rightarrow> machine" where
  "calib_start d s =
     (let s1 = write_CALSR (CALSR (eadc s) OR EADC_CALSR_CALIF_Msk d) s
      in write_CALCTL (CALCTL (eadc s1) OR EADC_CALCTL_CAL_Msk d) s1)"

text \<open>Lines 102 to 111: the wait for CALIF, with a fresh countdown of SystemCoreClock / 20.\<close>

definition calib_finish :: "eadc_defs \<Rightarrow> hardware \<Rightarrow> u32 \<Rightarrow> machine \<Rightarrow> bool \<times> machine" where
  "calib_finish d hw SystemCoreClock s = wait_calif d hw (SystemCoreClock div 20) s"

text \<open>Lines 85 to 112: the branch taken when CALIF reads as clear.\<close>

definition calib_body :: "eadc_defs \<Rightarrow> hardware \<Rightarrow> u32 \<Rightarrow> machine \<Rightarrow> machine" where
  "calib_body d hw SystemCoreClock s =
     snd (calib_finish d hw SystemCoreClock
            (calib_start d (snd (calib_reset d hw SystemCoreClock s))))"

definition EADC_Calibration :: "eadc_defs \<Rightarrow> hardware \<Rightarrow> u32 \<Rightarrow> machine \<Rightarrow> machine" where
  "EADC_Calibration d hw SystemCoreClock s =
     (let u32EADCClkSel = EADCSEL (clk s);
          u32EADCClkDiv = EADCDIV (clk s);
          s1 = calib_setup d s;
          s2 = (if CALSR (eadc s1) AND EADC_CALSR_CALIF_Msk d = 0
                then calib_body d hw SystemCoreClock s1
                else s1)
      in write_EADCDIV u32EADCClkDiv (write_EADCSEL u32EADCClkSel s2))"

subsection \<open>The other operations of the driver\<close>

text \<open>
  EADC\_Open (lines 37 to 49). Its first statement stores to the word at byte offset
  0xFF0 of the block, which is no register of \<open>EADC_T\<close> and is left out; the rest is
  kept: clear DIFFEN, set the input mode and ADCEN, calibrate.
\<close>

definition open_prepared :: "eadc_defs \<Rightarrow> u32 \<Rightarrow> machine \<Rightarrow> machine" where
  "open_prepared d u32InputMode s =
     (let s1 = write_CTL (CTL (eadc s) AND NOT (EADC_CTL_DIFFEN_Msk d)) s
      in write_CTL (CTL (eadc s1) OR (u32InputMode OR EADC_CTL_ADCEN_Msk d)) s1)"

definition EADC_Open :: "eadc_defs \<Rightarrow> hardware \<Rightarrow> u32 \<Rightarrow> u32 \<Rightarrow> machine \<Rightarrow> machine" where
  "EADC_Open d hw SystemCoreClock u32InputMode s =
     EADC_Calibration d hw SystemCoreClock (open_prepared d u32InputMode s)"

definition EADC_Close :: "eadc_defs \<Rightarrow> machine \<Rightarrow> machine" where
  "EADC_Close d s = write_CTL (CTL (eadc s) AND NOT (EADC_CTL_ADCEN_Msk d)) s"

text \<open>
  The three sample-module operations share one shape: a test \<open>u32ModuleNum < 19\<close>,
  then a clearing store and a setting store to \<open>SCTL[u32ModuleNum]\<close> or to
  \<open>SCTL19[u32ModuleNum - 19]\<close>. Neither index is checked against the length of its
  array, so each access goes to the word at the address the index gives:
  \<open>sample_module_word\<close> is that address (the base of the array plus the index, the
  subtraction in 32 bits and the sum in the address space), and \<open>rmw_word\<close> is the two
  statements, each a load and a store at that address.
\<close>

definition sample_module_word :: "eadc_layout \<Rightarrow> u32 \<Rightarrow> waddr" where
  "sample_module_word lay u32ModuleNum =
     (if u32ModuleNum < 19 then addr_SCTL lay + ucast u32ModuleNum
      else addr_SCTL19 lay + ucast (u32ModuleNum - 19))"

definition rmw_word :: "eadc_layout \<Rightarrow> waddr \<Rightarrow> u32 \<Rightarrow> u32 \<Rightarrow> machine \<Rightarrow> machine" where
  "rmw_word lay a clear_mask set_bits s =
     (let s1 = store_word lay a (load_word lay a s AND NOT clear_mask) s
      in store_word lay a (load_word lay a s1 OR set_bits) s1)"

definition EADC_ConfigSampleModule ::
  "eadc_layout \<Rightarrow> eadc_defs \<Rightarrow> u32 \<Rightarrow> u32 \<Rightarrow> u32 \<Rightarrow> machine \<Rightarrow> machine" where
  "EADC_ConfigSampleModule lay d u32ModuleNum u32TriggerSrc u32Channel s =
     rmw_word lay (sample_module_word lay u32ModuleNum)
       (EADC_SCTL_EXTFEN_Msk d OR EADC_SCTL_EXTREN_Msk d OR EADC_SCTL_TRGSEL_Msk d
          OR EADC_SCTL_CHSEL_Msk d)
       (u32TriggerSrc OR u32Channel) s"

definition EADC_SetTriggerDelayTime ::
  "eadc_layout \<Rightarrow> eadc_defs \<Rightarrow> u32 \<Rightarrow> u32 \<Rightarrow> u32 \<Rightarrow> machine \<Rightarrow> machine" where
  "EADC_SetTriggerDelayTime lay d u32ModuleNum u32TriggerDelayTime u32DelayClockDivider s =
     rmw_word lay (sample_module_word lay u32ModuleNum)
       (EADC_SCTL_TRGDLDIV_Msk d OR EADC_SCTL_TRGDLCNT_Msk d)
       (push_bit (EADC_SCTL_TRGDLCNT_Pos d) u32TriggerDelayTime OR u32DelayClockDivider) s"

definition EADC_SetExtendSampleTime ::
  "eadc_layout \<Rightarrow> eadc_defs \<Rightarrow> u32 \<Rightarrow> u32 \<Rightarrow> machine \<Rightarrow> machine" where
  "EADC_SetExtendSampleTime lay d u32ModuleNum u32ExtendSampleTime s =
     rmw_word lay (sample_module_word lay u32ModuleNum)
       (EADC_SCTL_EXTSMPT_Msk d)
       (push_bit (EADC_SCTL_EXTSMPT_Pos d) u32ExtendSampleTime) s"

subsection \<open>Observations on a run of the calibration\<close>

text \<open>
  A countdown seeded with \<open>n\<close> is pre-decremented before it is compared with zero, so
  it allows \<open>n\<close> polls when \<open>n\<close> is positive and \<open>2 ^ 32\<close> polls when \<open>n\<close> is zero.
\<close>

definition budget :: "u32 \<Rightarrow> nat" where
  "budget n = (if n = 0 then 2 ^ 32 else unat n)"

text \<open>The writes a run appended to the log.\<close>

definition new_writes :: "machine \<Rightarrow> machine \<Rightarrow> (reg \<times> u32) list" where
  "new_writes s s' = drop (length (writes s)) (writes s')"

text \<open>Whether CALIF reads as clear at line 85, so that the branch is taken.\<close>

definition calib_needed :: "eadc_defs \<Rightarrow> machine \<Rightarrow> bool" where
  "calib_needed d s \<longleftrightarrow> CALSR (eadc s) AND EADC_CALSR_CALIF_Msk d = 0"

text \<open>The state in which the second loop starts, when the branch is taken.\<close>

definition calib_midpoint :: "eadc_defs \<Rightarrow> hardware \<Rightarrow> u32 \<Rightarrow> machine \<Rightarrow> machine" where
  "calib_midpoint d hw SystemCoreClock s =
     calib_start d (snd (calib_reset d hw SystemCoreClock (calib_setup d s)))"

text \<open>Whether the first, and the second, loop of a run from \<open>s\<close> is left through its break.\<close>

definition reset_poll_exhausted :: "eadc_defs \<Rightarrow> hardware \<Rightarrow> u32 \<Rightarrow> machine \<Rightarrow> bool" where
  "reset_poll_exhausted d hw SystemCoreClock s =
     fst (calib_reset d hw SystemCoreClock (calib_setup d s))"

definition calif_poll_exhausted :: "eadc_defs \<Rightarrow> hardware \<Rightarrow> u32 \<Rightarrow> machine \<Rightarrow> bool" where
  "calif_poll_exhausted d hw SystemCoreClock s =
     fst (calib_finish d hw SystemCoreClock (calib_midpoint d hw SystemCoreClock s))"

text \<open>
  What the \<open>k\<close>-th poll of a loop started in \<open>s\<close> reads (\<open>k\<close> counted from 0): the
  register block after the hardware has had \<open>k + 1\<close> turns.
\<close>

definition seen_at :: "hardware \<Rightarrow> machine \<Rightarrow> nat \<Rightarrow> EADC_T" where
  "seen_at hw s k = eadc ((hw_turn hw ^^ Suc k) s)"

definition reset_pending :: "eadc_defs \<Rightarrow> EADC_T \<Rightarrow> bool" where
  "reset_pending d e \<longleftrightarrow> CTL e AND EADC_CTL_ADCRST_Msk d = EADC_CTL_ADCRST_Msk d"

definition calif_set :: "eadc_defs \<Rightarrow> EADC_T \<Rightarrow> bool" where
  "calif_set d e \<longleftrightarrow> CALSR e AND EADC_CALSR_CALIF_Msk d = EADC_CALSR_CALIF_Msk d"

text \<open>
  The number of polls a loop makes when its countdown allows \<open>b\<close> polls and its
  condition holds at poll \<open>k\<close> (counted from 0) exactly when \<open>waiting k\<close>: it stops at
  the first poll whose condition fails, or with the last poll allowed.
\<close>

primrec polls_made :: "(nat \<Rightarrow> bool) \<Rightarrow> nat \<Rightarrow> nat" where
  "polls_made waiting 0 = 0"
| "polls_made waiting (Suc b) =
     (if waiting 0 then Suc (polls_made (\<lambda>k. waiting (Suc k)) b) else 1)"

text \<open>
  The polls of the first loop of a run from \<open>s\<close>, the register block as its last poll
  saw it, and the polls of the second loop.
\<close>

definition reset_polls :: "eadc_defs \<Rightarrow> hardware \<Rightarrow> u32 \<Rightarrow> machine \<Rightarrow> nat" where
  "reset_polls d hw SystemCoreClock s =
     polls_made (\<lambda>k. reset_pending d (seen_at hw (EADC_CONV_RESET d (calib_setup d s)) k))
       (budget SystemCoreClock)"

definition reset_view :: "eadc_defs \<Rightarrow> hardware \<Rightarrow> u32 \<Rightarrow> machine \<Rightarrow> EADC_T" where
  "reset_view d hw SystemCoreClock s =
     seen_at hw (EADC_CONV_RESET d (calib_setup d s)) (reset_polls d hw SystemCoreClock s - 1)"

definition calif_polls :: "eadc_defs \<Rightarrow> hardware \<Rightarrow> u32 \<Rightarrow> machine \<Rightarrow> nat" where
  "calif_polls d hw SystemCoreClock s =
     polls_made (\<lambda>k. \<not> calif_set d (seen_at hw (calib_midpoint d hw SystemCoreClock s) k))
       (budget (SystemCoreClock div 20))"

text \<open>Two hardware behaviours and a start state for concrete runs.\<close>

definition hw_prompt :: hardware where
  "hw_prompt t e = e\<lparr>CTL := CTL e AND NOT 0x2, CALSR := CALSR e OR 0x10000\<rparr>"

definition hw_stuck :: hardware where
  "hw_stuck t e = e\<lparr>CTL := CTL e OR 0x2, CALSR := CALSR e AND NOT 0x10000\<rparr>"

definition m0 :: machine where
  "m0 = \<lparr> clk = \<lparr>EADCSEL = 0x1, EADCDIV = 0x5\<rparr>,
          eadc = \<lparr>CTL = 0, CALSR = 0, CALCTL = 0, SCTL = (\<lambda>i. 0), SCTL19 = (\<lambda>i. 0)\<rparr>,
          g_EADC_i32ErrCode = 0, writes = [], ticks = 0, mem = (\<lambda>a. 0) \<rparr>"

definition m_calibrated :: machine where
  "m_calibrated = m0\<lparr>eadc := (eadc m0)\<lparr>CALSR := 0x10000\<rparr>\<rparr>"

text \<open>A state that still holds the timeout value of an earlier call, with CALIF set.\<close>

definition m_stale :: machine where
  "m_stale = m_calibrated\<lparr>g_EADC_i32ErrCode := 0xFFFFFFFF\<rparr>"

text \<open>
  One layout, for concrete runs: the clock registers, the converter block with
  \<open>SCTL\<close> at byte offset 0x80 and \<open>SCTL19\<close> at byte offset 0x1D0, and the error code
  in RAM.
\<close>

definition sample_layout :: eadc_layout where
  "sample_layout = \<lparr>
     addr_EADCSEL = 0x10000484,
     addr_EADCDIV = 0x100004C4,
     addr_CTL = 0x10010C14,
     addr_CALSR = 0x10010C71,
     addr_CALCTL = 0x10010C70,
     addr_ErrCode = 0x08000040,
     addr_SCTL = 0x10010C20,
     addr_SCTL19 = 0x10010C74 \<rparr>"

section \<open>USCI SPI driver (usci\_spi.c)\<close>

subsection \<open>Constants, registers and errors\<close>

text \<open>
  The masks and positions of the register fields and the value of \<open>USPI_MASTER\<close> come
  from NuMicro.h, which is not among the sources: they are parameters of the model, one
  field of \<open>uspi_defs\<close> per macro.
\<close>

record uspi_defs =
  USPI_CTL_FUNMODE_Msk :: u32
  USPI_CTL_FUNMODE_Pos :: nat
  USPI_LINECTL_DWIDTH_Msk :: u32
  USPI_LINECTL_DWIDTH_Pos :: nat
  USPI_LINECTL_LSB_Msk :: u32
  USPI_LINECTL_CTLOINV_Msk :: u32
  USPI_CTLIN0_ININV_Msk :: u32
  USPI_PROTCTL_SCLKMODE_Msk :: u32
  USPI_PROTCTL_AUTOSS_Msk :: u32
  USPI_PROTCTL_SLAVE_Msk :: u32
  USPI_PROTCTL_PROTEN_Msk :: u32
  USPI_BRGEN_CLKDIV_Msk :: u32
  USPI_BRGEN_CLKDIV_Pos :: nat
  USPI_MASTER :: u32

text \<open>
  One instance, for concrete runs: FUNMODE in bits 0 to 2 of CTL; LSB in bit 0, CTLOINV
  in bit 7 and the four-bit DWIDTH in bits 8 to 11 of LINECTL; ININV in bit 2 of CTLIN0;
  SLAVE in bit 0, AUTOSS in bit 3, SCLKMODE in bits 6 and 7 and PROTEN in bit 31 of
  PROTCTL; the ten-bit CLKDIV in bits 16 to 25 of BRGEN; master mode selected by 0.
\<close>

definition sample_uspi_defs :: uspi_defs where
  "sample_uspi_defs = \<lparr>
     USPI_CTL_FUNMODE_Msk = 0x7,
     USPI_CTL_FUNMODE_Pos = 0,
     USPI_LINECTL_DWIDTH_Msk = 0xF00,
     USPI_LINECTL_DWIDTH_Pos = 8,
     USPI_LINECTL_LSB_Msk = 0x1,
     USPI_LINECTL_CTLOINV_Msk = 0x80,
     USPI_CTLIN0_ININV_Msk = 0x4,
     USPI_PROTCTL_SCLKMODE_Msk = 0xC0,
     USPI_PROTCTL_AUTOSS_Msk = 0x8,
     USPI_PROTCTL_SLAVE_Msk = 0x1,
     USPI_PROTCTL_PROTEN_Msk = 0x80000000,
     USPI_BRGEN_CLKDIV_Msk = 0x3FF0000,
     USPI_BRGEN_CLKDIV_Pos = 16,
     USPI_MASTER = 0 \<rparr>"

text \<open>
  The registers of the USCI block that \<open>USPI_Open\<close> and \<open>USPI_SetBusClock\<close> touch,
  under the names \<open>USPI_CTL\<close> for \<open>uspi->CTL\<close> and so on (the EADC block has a CTL of
  its own).
\<close>

record USPI_T =
  USPI_CTL :: u32
  USPI_LINECTL :: u32
  USPI_CTLIN0 :: u32
  USPI_PROTCTL :: u32
  USPI_BRGEN :: u32

text \<open>The handle is compared with \<open>USPI0\<close> only.\<close>

datatype uspi_handle = USPI0 | USPI_other

text \<open>An unsigned division by zero is undefined in C; the model makes it an error value.\<close>

datatype error = DivisionByZero

subsection \<open>The divider arithmetic\<close>

text \<open>
  The expression of lines 57 and 185, in 32-bit unsigned arithmetic:
  \<open>((((u32Pclk / 2) * 10) / u32BusClock) + 5) / 10 - 1\<close>. Its callers decide what a
  zero \<open>u32BusClock\<close> does.
\<close>

definition clkdiv_expr :: "u32 \<Rightarrow> u32 \<Rightarrow> u32" where
  "clkdiv_expr u32Pclk u32BusClock = (((u32Pclk div 2) * 10) div u32BusClock + 5) div 10 - 1"

text \<open>The expression of lines 99 and 191: \<open>u32Pclk / ((u32ClkDiv + 1) << 1)\<close>.\<close>

definition busclk_expr :: "u32 \<Rightarrow> u32 \<Rightarrow> error + u32" where
  "busclk_expr u32Pclk u32ClkDiv =
     (if push_bit 1 (u32ClkDiv + 1) = 0 then Inl DivisionByZero
      else Inr (u32Pclk div push_bit 1 (u32ClkDiv + 1)))"

text \<open>Lines 93 and 94, 188 and 189: clear CLKDIV in BRGEN, then set the divider.\<close>

definition set_CLKDIV :: "uspi_defs \<Rightarrow> u32 \<Rightarrow> USPI_T \<Rightarrow> USPI_T" where
  "set_CLKDIV d u32ClkDiv r =
     (let r1 = r\<lparr>USPI_BRGEN := USPI_BRGEN r AND NOT (USPI_BRGEN_CLKDIV_Msk d)\<rparr>
      in r1\<lparr>USPI_BRGEN := USPI_BRGEN r1 OR push_bit (USPI_BRGEN_CLKDIV_Pos d) u32ClkDiv\<rparr>)"

subsection \<open>USPI\_Open and USPI\_SetBusClock\<close>

text \<open>
  Both take the value \<open>CLK_GetPCLK1Freq()\<close> returns as the parameter \<open>PCLK1\<close> (the
  function is not among the sources). In \<open>USPI_Open\<close> the local \<open>u32Pclk\<close> has no
  initialiser and is assigned only for \<open>USPI0\<close>; \<open>stack\<close> is what it holds otherwise.
  Both return the result, or the error, paired with the registers as they are at that
  point.
\<close>

text \<open>Lines 64 to 84: the data width, the bit order and the slave-select polarity.\<close>

definition open_line_format :: "uspi_defs \<Rightarrow> u32 \<Rightarrow> u32 \<Rightarrow> USPI_T \<Rightarrow> USPI_T" where
  "open_line_format d u32MasterSlave u32DataWidth r =
     (let w = (if 16 \<le> u32DataWidth then 0 else u32DataWidth);
          r1 = r\<lparr>USPI_LINECTL := USPI_LINECTL r AND NOT (USPI_LINECTL_DWIDTH_Msk d)\<rparr>;
          r2 = r1\<lparr>USPI_LINECTL := USPI_LINECTL r1 OR push_bit (USPI_LINECTL_DWIDTH_Pos d) w\<rparr>;
          r3 = r2\<lparr>USPI_LINECTL := USPI_LINECTL r2 AND NOT (USPI_LINECTL_LSB_Msk d)\<rparr>
      in if u32MasterSlave = USPI_MASTER d
         then r3\<lparr>USPI_LINECTL := USPI_LINECTL r3 OR USPI_LINECTL_CTLOINV_Msk d\<rparr>
         else r3\<lparr>USPI_CTLIN0 := USPI_CTLIN0 r3 OR USPI_CTLIN0_ININV_Msk d\<rparr>)"

text \<open>Lines 60 to 62: select the SPI protocol.\<close>

definition open_protocol :: "uspi_defs \<Rightarrow> USPI_T \<Rightarrow> USPI_T" where
  "open_protocol d r =
     (let r1 = r\<lparr>USPI_CTL := USPI_CTL r AND NOT (USPI_CTL_FUNMODE_Msk d)\<rparr>
      in r1\<lparr>USPI_CTL := USPI_CTL r1 OR push_bit (USPI_CTL_FUNMODE_Pos d) 1\<rparr>)"

text \<open>Lines 86 to 95: the mode and timing, the divider, and the protocol enable.\<close>

definition open_mode_clock :: "uspi_defs \<Rightarrow> u32 \<Rightarrow> u32 \<Rightarrow> u32 \<Rightarrow> USPI_T \<Rightarrow> USPI_T" where
  "open_mode_clock d u32MasterSlave u32SPIMode u32ClkDiv r =
     (let r1 = r\<lparr>USPI_PROTCTL := USPI_PROTCTL r AND
                   NOT (USPI_PROTCTL_SCLKMODE_Msk d OR USPI_PROTCTL_AUTOSS_Msk d
                          OR USPI_PROTCTL_SLAVE_Msk d)\<rparr>;
          r2 = r1\<lparr>USPI_PROTCTL := USPI_PROTCTL r1 OR (u32MasterSlave OR u32SPIMode)\<rparr>;
          r3 = set_CLKDIV d u32ClkDiv r2
      in r3\<lparr>USPI_PROTCTL := USPI_PROTCTL r3 OR USPI_PROTCTL_PROTEN_Msk d\<rparr>)"

definition USPI_Open ::
  "uspi_defs \<Rightarrow> u32 \<Rightarrow> u32 \<Rightarrow> uspi_handle \<Rightarrow> u32 \<Rightarrow> u32 \<Rightarrow> u32 \<Rightarrow> u32 \<Rightarrow> USPI_T
     \<Rightarrow> (error + u32) \<times> USPI_T" where
  "USPI_Open d PCLK1 stack uspi u32MasterSlave u32SPIMode u32DataWidth u32BusClock r =
     (let u32Pclk = (if uspi = USPI0 then PCLK1 else stack);
          u32ClkDiv = (if u32BusClock \<noteq> 0 then clkdiv_expr u32Pclk u32BusClock else 0);
          r1 = open_protocol d r;
          r2 = open_line_format d u32MasterSlave u32DataWidth r1;
          r3 = open_mode_clock d u32MasterSlave u32SPIMode u32ClkDiv r2
      in if u32BusClock \<noteq> 0 then (busclk_expr u32Pclk u32ClkDiv, r3) else (Inr 0, r3))"

definition USPI_SetBusClock ::
  "uspi_defs \<Rightarrow> u32 \<Rightarrow> uspi_handle \<Rightarrow> u32 \<Rightarrow> USPI_T \<Rightarrow> (error + u32) \<times> USPI_T" where
  "USPI_SetBusClock d PCLK1 uspi u32BusClock r =
     (let u32Pclk = (if uspi = USPI0 then PCLK1 else 0)
      in if u32BusClock = 0 then (Inl DivisionByZero, r)
         else (let u32ClkDiv = clkdiv_expr u32Pclk u32BusClock;
                   r1 = set_CLKDIV d u32ClkDiv r
               in (busclk_expr u32Pclk u32ClkDiv, r1)))"

subsection \<open>Observations on the serial-bus clock\<close>

text \<open>
  The integer nearest to \<open>h / b\<close>, halves rounded up: the rounding the divider
  computation is meant to perform on half the peripheral clock and the bus clock.
\<close>

definition nearest_quotient :: "nat \<Rightarrow> nat \<Rightarrow> nat" where
  "nearest_quotient h b = (2 * h + b) div (2 * b)"

text \<open>The value of a field of a register: the bits under the mask, shifted down.\<close>

definition field_value :: "u32 \<Rightarrow> nat \<Rightarrow> u32 \<Rightarrow> u32" where
  "field_value msk pos v = drop_bit pos (v AND msk)"

definition u0 :: USPI_T where
  "u0 = \<lparr>USPI_CTL = 0, USPI_LINECTL = 0xFFFFFFFF, USPI_CTLIN0 = 0, USPI_PROTCTL = 0,
         USPI_BRGEN = 0\<rparr>"

section \<open>Properties of the EADC driver\<close>

subsection \<open>The countdown and the polling loops\<close>

lemma budget_pos: "0 < budget n"
  by (simp add: budget_def unat_gt_0)

lemma budget_one: "budget 1 = 1"
  by (simp add: budget_def)

lemma budget_step: "n - 1 \<noteq> 0 \<Longrightarrow> budget n = Suc (budget (n - 1))"
proof (cases "n = 0")
  case True
  then show ?thesis by (simp add: budget_def unsigned_minus_1_eq_mask mask_eq_exp_minus_1)
next
  case False
  assume "n - 1 \<noteq> 0"
  with False show ?thesis
    using unat_minus_one [of n] unat_gt_0 [of n] by (simp add: budget_def)
qed

lemma budget_le: "budget n \<le> 2 ^ 32"
  using unsigned_less [of n, where 'a = nat] by (simp add: budget_def)

lemma hw_turn_simps [simp]:
  "clk (hw_turn hw s) = clk s"
  "writes (hw_turn hw s) = writes s"
  "g_EADC_i32ErrCode (hw_turn hw s) = g_EADC_i32ErrCode s"
  "ticks (hw_turn hw s) = Suc (ticks s)"
  "eadc (hw_turn hw s) = hw (ticks s) (eadc s)"
  by (simp_all add: hw_turn_def)

lemma wait_reset_frame:
  "clk (snd (wait_reset d hw n s)) = clk s \<and> writes (snd (wait_reset d hw n s)) = writes s"
proof (induction d hw n s rule: wait_reset.induct)
  case (1 d hw n s)
  show ?case
    using "1.IH" by (subst (1 2) wait_reset.simps) (simp add: Let_def)
qed

lemma wait_reset_err:
  "g_EADC_i32ErrCode (snd (wait_reset d hw n s)) =
     (if fst (wait_reset d hw n s) then EADC_TIMEOUT_ERR d else g_EADC_i32ErrCode s)"
proof (induction d hw n s rule: wait_reset.induct)
  case (1 d hw n s)
  show ?case
    using "1.IH" by (subst (1 2) wait_reset.simps) (simp add: Let_def)
qed

lemma wait_reset_ticks:
  "ticks (snd (wait_reset d hw n s)) \<le> ticks s + budget n \<and>
   (fst (wait_reset d hw n s) \<longrightarrow> ticks (snd (wait_reset d hw n s)) = ticks s + budget n)"
proof (induction d hw n s rule: wait_reset.induct)
  case (1 d hw n s)
  show ?case
  proof (cases "n - 1 = 0")
    case True
    then have "n = 1" by simp
    then show ?thesis
      by (subst (1 2 3) wait_reset.simps) (simp add: Let_def budget_one)
  next
    case False
    then show ?thesis
      using "1.IH" [OF refl _ False] budget_step [OF False] budget_pos [of "n - 1"]
      by (subst (1 2 3) wait_reset.simps) (auto simp add: Let_def)
  qed
qed

lemma wait_reset_exhausted:
  "fst (wait_reset d hw n s) \<longleftrightarrow> (\<forall>k < budget n. reset_pending d (seen_at hw s k))"
proof (induction d hw n s rule: wait_reset.induct)
  case (1 d hw n s)
  let ?s1 = "hw_turn hw s"
  have seen0: "seen_at hw s 0 = eadc ?s1"
    by (simp add: seen_at_def)
  have seenS: "seen_at hw s (Suc k) = seen_at hw ?s1 k" for k
    by (simp only: seen_at_def funpow_Suc_right o_apply)
  show ?case
  proof (cases "reset_pending d (eadc ?s1)")
    case False
    then have "\<not> fst (wait_reset d hw n s)"
      by (subst wait_reset.simps) (simp add: Let_def reset_pending_def)
    moreover have "\<not> (\<forall>k < budget n. reset_pending d (seen_at hw s k))"
      using False budget_pos [of n] seen0 by auto
    ultimately show ?thesis by simp
  next
    case pending: True
    show ?thesis
    proof (cases "n - 1 = 0")
      case True
      then have n: "n = 1" by simp
      have "fst (wait_reset d hw n s)"
        using pending True by (subst wait_reset.simps) (simp add: Let_def reset_pending_def)
      moreover have "\<forall>k < budget n. reset_pending d (seen_at hw s k)"
        using pending seen0 by (simp add: n budget_one)
      ultimately show ?thesis by simp
    next
      case False
      have "fst (wait_reset d hw n s) = fst (wait_reset d hw (n - 1) ?s1)"
        using pending False by (subst wait_reset.simps) (simp add: Let_def reset_pending_def)
      also have "\<dots> \<longleftrightarrow> (\<forall>k < budget (n - 1). reset_pending d (seen_at hw ?s1 k))"
        using "1.IH" [OF refl _ False] pending by (simp add: reset_pending_def)
      also have "\<dots> \<longleftrightarrow> (\<forall>k < budget n. reset_pending d (seen_at hw s k))"
        unfolding budget_step [OF False] 
        using pending seen0 seenS by (auto simp: less_Suc_eq_0_disj)
      finally show ?thesis .
    qed
  qed
qed

lemma wait_calif_frame:
  "clk (snd (wait_calif d hw n s)) = clk s \<and> writes (snd (wait_calif d hw n s)) = writes s"
proof (induction d hw n s rule: wait_calif.induct)
  case (1 d hw n s)
  show ?case
    using "1.IH" by (subst (1 2) wait_calif.simps) (simp add: Let_def)
qed

lemma wait_calif_err:
  "g_EADC_i32ErrCode (snd (wait_calif d hw n s)) =
     (if fst (wait_calif d hw n s) then EADC_TIMEOUT_ERR d else g_EADC_i32ErrCode s)"
proof (induction d hw n s rule: wait_calif.induct)
  case (1 d hw n s)
  show ?case
    using "1.IH" by (subst (1 2) wait_calif.simps) (simp add: Let_def)
qed

lemma wait_calif_ticks:
  "ticks (snd (wait_calif d hw n s)) \<le> ticks s + budget n \<and>
   (fst (wait_calif d hw n s) \<longrightarrow> ticks (snd (wait_calif d hw n s)) = ticks s + budget n)"
proof (induction d hw n s rule: wait_calif.induct)
  case (1 d hw n s)
  show ?case
  proof (cases "n - 1 = 0")
    case True
    then have "n = 1" by simp
    then show ?thesis
      by (subst (1 2 3) wait_calif.simps) (simp add: Let_def budget_one)
  next
    case False
    then show ?thesis
      using "1.IH" [OF refl _ False] budget_step [OF False] budget_pos [of "n - 1"]
      by (subst (1 2 3) wait_calif.simps) (auto simp add: Let_def)
  qed
qed

lemma wait_calif_exhausted:
  "fst (wait_calif d hw n s) \<longleftrightarrow> (\<forall>k < budget n. \<not> calif_set d (seen_at hw s k))"
proof (induction d hw n s rule: wait_calif.induct)
  case (1 d hw n s)
  let ?s1 = "hw_turn hw s"
  have seen0: "seen_at hw s 0 = eadc ?s1"
    by (simp add: seen_at_def)
  have seenS: "seen_at hw s (Suc k) = seen_at hw ?s1 k" for k
    by (simp only: seen_at_def funpow_Suc_right o_apply)
  show ?case
  proof (cases "calif_set d (eadc ?s1)")
    case True
    then have "\<not> fst (wait_calif d hw n s)"
      by (subst wait_calif.simps) (simp add: Let_def calif_set_def)
    moreover have "\<not> (\<forall>k < budget n. \<not> calif_set d (seen_at hw s k))"
      using True budget_pos [of n] seen0 by auto
    ultimately show ?thesis by simp
  next
    case clear: False
    show ?thesis
    proof (cases "n - 1 = 0")
      case True
      then have n: "n = 1" by simp
      have "fst (wait_calif d hw n s)"
        using clear True by (subst wait_calif.simps) (simp add: Let_def calif_set_def)
      moreover have "\<forall>k < budget n. \<not> calif_set d (seen_at hw s k)"
        using clear seen0 by (simp add: n budget_one)
      ultimately show ?thesis by simp
    next
      case False
      have "fst (wait_calif d hw n s) = fst (wait_calif d hw (n - 1) ?s1)"
        using clear False by (subst wait_calif.simps) (simp add: Let_def calif_set_def)
      also have "\<dots> \<longleftrightarrow> (\<forall>k < budget (n - 1). \<not> calif_set d (seen_at hw ?s1 k))"
        using "1.IH" [OF refl _ False] clear by (simp add: calif_set_def)
      also have "\<dots> \<longleftrightarrow> (\<forall>k < budget n. \<not> calif_set d (seen_at hw s k))"
        unfolding budget_step [OF False]
        using clear seen0 seenS by (auto simp: less_Suc_eq_0_disj)
      finally show ?thesis .
    qed
  qed
qed

subsection \<open>The straight-line parts\<close>

lemma write_simps [simp]:
  "clk (write_EADCSEL v s) = (clk s)\<lparr>EADCSEL := v\<rparr>"
  "clk (write_EADCDIV v s) = (clk s)\<lparr>EADCDIV := v\<rparr>"
  "clk (write_CTL v s) = clk s"
  "clk (write_CALSR v s) = clk s"
  "clk (write_CALCTL v s) = clk s"
  "eadc (write_EADCSEL v s) = eadc s"
  "eadc (write_EADCDIV v s) = eadc s"
  "eadc (write_CTL v s) = (eadc s)\<lparr>CTL := v\<rparr>"
  "eadc (write_CALSR v s) = (eadc s)\<lparr>CALSR := v\<rparr>"
  "eadc (write_CALCTL v s) = (eadc s)\<lparr>CALCTL := v\<rparr>"
  "writes (write_EADCSEL v s) = writes s @ [(R_EADCSEL, v)]"
  "writes (write_EADCDIV v s) = writes s @ [(R_EADCDIV, v)]"
  "writes (write_CTL v s) = writes s @ [(R_CTL, v)]"
  "writes (write_CALSR v s) = writes s @ [(R_CALSR, v)]"
  "writes (write_CALCTL v s) = writes s @ [(R_CALCTL, v)]"
  by (simp_all add: write_EADCSEL_def write_EADCDIV_def write_CTL_def write_CALSR_def
      write_CALCTL_def)

lemma write_keeps [simp]:
  "g_EADC_i32ErrCode (write_EADCSEL v s) = g_EADC_i32ErrCode s"
  "g_EADC_i32ErrCode (write_EADCDIV v s) = g_EADC_i32ErrCode s"
  "g_EADC_i32ErrCode (write_CTL v s) = g_EADC_i32ErrCode s"
  "g_EADC_i32ErrCode (write_CALSR v s) = g_EADC_i32ErrCode s"
  "g_EADC_i32ErrCode (write_CALCTL v s) = g_EADC_i32ErrCode s"
  "ticks (write_EADCSEL v s) = ticks s"
  "ticks (write_EADCDIV v s) = ticks s"
  "ticks (write_CTL v s) = ticks s"
  "ticks (write_CALSR v s) = ticks s"
  "ticks (write_CALCTL v s) = ticks s"
  by (simp_all add: write_EADCSEL_def write_EADCDIV_def write_CTL_def write_CALSR_def
      write_CALCTL_def)

lemma calib_setup_simps:
  "clk (calib_setup d s) =
     \<lparr>EADCSEL = (EADCSEL (clk s) AND CLK_EADCSEL_EADC0SEL_Msk d) OR CLK_EADCSEL_EADC0SEL_PCLK0 d,
      EADCDIV = EADCDIV (clk s) AND CLK_EADCDIV_EADC0DIV_Msk d\<rparr>"
  "eadc (calib_setup d s) = (eadc s)\<lparr>CTL := CTL (eadc s) OR EADC_CTL_ADCEN_Msk d\<rparr>"
  "g_EADC_i32ErrCode (calib_setup d s) = 0"
  "ticks (calib_setup d s) = ticks s"
  "writes (calib_setup d s) = writes s @
     [(R_EADCSEL, (EADCSEL (clk s) AND CLK_EADCSEL_EADC0SEL_Msk d) OR CLK_EADCSEL_EADC0SEL_PCLK0 d),
      (R_EADCDIV, EADCDIV (clk s) AND CLK_EADCDIV_EADC0DIV_Msk d),
      (R_CTL, CTL (eadc s) OR EADC_CTL_ADCEN_Msk d)]"
  by (simp_all add: calib_setup_def Let_def)

lemma calib_body_simps:
  "clk (calib_body d hw f s) = clk s"
  "writes (calib_body d hw f s) = writes s @
     [(R_CTL, CTL (eadc s) OR EADC_CTL_ADCRST_Msk d),
      (R_CALSR, CALSR (eadc (snd (calib_reset d hw f s))) OR EADC_CALSR_CALIF_Msk d),
      (R_CALCTL, CALCTL (eadc (snd (calib_reset d hw f s))) OR EADC_CALCTL_CAL_Msk d)]"
  by (simp_all add: calib_body_def calib_finish_def calib_start_def calib_reset_def
      EADC_CONV_RESET_def Let_def wait_calif_frame wait_reset_frame)

lemma calib_body_err:
  "g_EADC_i32ErrCode (calib_body d hw f s) =
     (if fst (calib_finish d hw f (calib_start d (snd (calib_reset d hw f s))))
          \<or> fst (calib_reset d hw f s)
      then EADC_TIMEOUT_ERR d else g_EADC_i32ErrCode s)"
  by (simp add: calib_body_def calib_finish_def calib_start_def calib_reset_def
      EADC_CONV_RESET_def Let_def wait_calif_err wait_reset_err)

lemma new_writes_append [simp]: "writes s' = writes s @ ws \<Longrightarrow> new_writes s s' = ws"
  by (simp add: new_writes_def)

lemma calibration_skip:
  assumes "CALSR (eadc s) AND EADC_CALSR_CALIF_Msk d \<noteq> 0"
  shows "EADC_Calibration d hw f s =
           write_EADCDIV (EADCDIV (clk s)) (write_EADCSEL (EADCSEL (clk s)) (calib_setup d s))"
  using assms by (simp add: EADC_Calibration_def Let_def calib_setup_simps)

lemma calibration_run:
  assumes "CALSR (eadc s) AND EADC_CALSR_CALIF_Msk d = 0"
  shows "EADC_Calibration d hw f s =
           write_EADCDIV (EADCDIV (clk s)) (write_EADCSEL (EADCSEL (clk s))
             (calib_body d hw f (calib_setup d s)))"
  using assms by (simp add: EADC_Calibration_def Let_def calib_setup_simps)

subsection \<open>Claims about EADC\_Calibration\<close>

text \<open>
  C1. When CALIF reads as set at line 85, whatever the registers otherwise hold, the
  hardware does and SystemCoreClock is, the call stores exactly five values: the two
  clock stores of lines 78 and 79, the converter-enable store of line 82 (the old CTL
  with ADCEN added), and the two restoring stores of lines 115 and 116. No store goes
  to CALCTL (no calibration-start command) or to CALSR, the only store to CTL is the
  enable store (the reset macro is not run), no poll is made, and EADCSEL and EADCDIV
  end with the values they had on entry.
\<close>

theorem calibration_skipped_when_finished:
  assumes "CALSR (eadc s) AND EADC_CALSR_CALIF_Msk d \<noteq> 0"
  shows "new_writes s (EADC_Calibration d hw f s) =
           [(R_EADCSEL, (EADCSEL (clk s) AND CLK_EADCSEL_EADC0SEL_Msk d)
                          OR CLK_EADCSEL_EADC0SEL_PCLK0 d),
            (R_EADCDIV, EADCDIV (clk s) AND CLK_EADCDIV_EADC0DIV_Msk d),
            (R_CTL, CTL (eadc s) OR EADC_CTL_ADCEN_Msk d),
            (R_EADCSEL, EADCSEL (clk s)),
            (R_EADCDIV, EADCDIV (clk s))]
       \<and> R_CALCTL \<notin> fst ` set (new_writes s (EADC_Calibration d hw f s))
       \<and> R_CALSR \<notin> fst ` set (new_writes s (EADC_Calibration d hw f s))
       \<and> eadc (EADC_Calibration d hw f s) = (eadc s)\<lparr>CTL := CTL (eadc s) OR EADC_CTL_ADCEN_Msk d\<rparr>
       \<and> ticks (EADC_Calibration d hw f s) = ticks s
       \<and> EADCSEL (clk (EADC_Calibration d hw f s)) = EADCSEL (clk s)
       \<and> EADCDIV (clk (EADC_Calibration d hw f s)) = EADCDIV (clk s)"
proof -
  let ?r = "EADC_Calibration d hw f s"
  have w: "writes ?r = writes s @
           [(R_EADCSEL, (EADCSEL (clk s) AND CLK_EADCSEL_EADC0SEL_Msk d)
                          OR CLK_EADCSEL_EADC0SEL_PCLK0 d),
            (R_EADCDIV, EADCDIV (clk s) AND CLK_EADCDIV_EADC0DIV_Msk d),
            (R_CTL, CTL (eadc s) OR EADC_CTL_ADCEN_Msk d),
            (R_EADCSEL, EADCSEL (clk s)),
            (R_EADCDIV, EADCDIV (clk s))]"
    by (simp add: calibration_skip [OF assms] calib_setup_simps)
  note nw = new_writes_append [OF w]
  have "eadc ?r = (eadc s)\<lparr>CTL := CTL (eadc s) OR EADC_CTL_ADCEN_Msk d\<rparr>"
    by (simp add: calibration_skip [OF assms] calib_setup_simps)
  moreover have "ticks ?r = ticks s"
    by (simp add: calibration_skip [OF assms] calib_setup_simps)
  moreover have "EADCSEL (clk ?r) = EADCSEL (clk s)" "EADCDIV (clk ?r) = EADCDIV (clk s)"
    by (simp_all add: calibration_skip [OF assms] calib_setup_simps)
  ultimately show ?thesis
    by (simp add: nw)
qed

theorem calibration_skipped_when_finished_witness:
  "CALSR (eadc m_calibrated) AND EADC_CALSR_CALIF_Msk sample_defs \<noteq> 0
   \<and> new_writes m_calibrated (EADC_Calibration sample_defs hw_stuck 20 m_calibrated) =
       [(R_EADCSEL, 3), (R_EADCDIV, 5), (R_CTL, 1), (R_EADCSEL, 1), (R_EADCDIV, 5)]
   \<and> clk (EADC_Calibration sample_defs hw_stuck 20 m_calibrated) = \<lparr>EADCSEL = 1, EADCDIV = 5\<rparr>"
proof -
  have h: "CALSR (eadc m_calibrated) AND EADC_CALSR_CALIF_Msk sample_defs \<noteq> 0"
    by (simp add: m_calibrated_def m0_def sample_defs_def)
  show ?thesis
    using h calibration_skipped_when_finished [OF h, of hw_stuck 20]
    by (simp add: m_calibrated_def m0_def sample_defs_def CLK_T.equality)
qed

text \<open>
  C2. For every register state, every hardware behaviour and every SystemCoreClock,
  whichever way the two loops are left, the call ends by storing the value of EADCSEL
  read at entry to EADCSEL and then the value of EADCDIV read at entry to EADCDIV: they
  are the last two stores of the log, and the clock controller ends as it began.
\<close>

theorem calibration_restores_clock:
  "clk (EADC_Calibration d hw f s) = clk s
   \<and> (\<exists>ws. writes (EADC_Calibration d hw f s) =
          writes s @ ws @ [(R_EADCSEL, EADCSEL (clk s)), (R_EADCDIV, EADCDIV (clk s))])"
proof (cases "CALSR (eadc s) AND EADC_CALSR_CALIF_Msk d = 0")
  case True
  show ?thesis
    by (simp add: calibration_run [OF True] calib_body_simps calib_setup_simps)
next
  case False
  show ?thesis
    by (simp add: calibration_skip [OF False] calib_setup_simps)
qed

lemma calibration_err:
  "g_EADC_i32ErrCode (EADC_Calibration d hw f s) =
     (if calib_needed d s \<and> (reset_poll_exhausted d hw f s \<or> calif_poll_exhausted d hw f s)
      then EADC_TIMEOUT_ERR d else 0)"
proof (cases "CALSR (eadc s) AND EADC_CALSR_CALIF_Msk d = 0")
  case True
  then show ?thesis
    by (auto simp add: calibration_run [OF True] calib_body_err calib_setup_simps
        calib_needed_def reset_poll_exhausted_def calif_poll_exhausted_def calib_midpoint_def)
next
  case False
  then show ?thesis
    by (simp add: calibration_skip [OF False] calib_setup_simps calib_needed_def)
qed

lemma calibration_writes_run:
  assumes "calib_needed d s"
  shows "\<exists>a b c e g. new_writes s (EADC_Calibration d hw f s) =
     [(R_EADCSEL, a), (R_EADCDIV, b), (R_CTL, c),
      (R_CTL, c OR EADC_CTL_ADCRST_Msk d), (R_CALSR, e), (R_CALCTL, g),
      (R_EADCSEL, EADCSEL (clk s)), (R_EADCDIV, EADCDIV (clk s))]"
proof -
  from assms have n: "CALSR (eadc s) AND EADC_CALSR_CALIF_Msk d = 0"
    by (simp add: calib_needed_def)
  show ?thesis
    by (simp add: calibration_run [OF n] calib_body_simps calib_setup_simps new_writes_def)
qed

lemma polls_made_bounds: "0 < b \<Longrightarrow> 0 < polls_made w b \<and> polls_made w b \<le> b"
proof (induction b arbitrary: w)
  case 0
  then show ?case by simp
next
  case (Suc b)
  show ?case
  proof (cases b)
    case 0
    then show ?thesis by simp
  next
    case (Suc c)
    then show ?thesis using Suc.IH [of "\<lambda>k. w (Suc k)"] by simp
  qed
qed

lemma polls_made_all: "(\<And>k. k < b \<Longrightarrow> w k) \<Longrightarrow> polls_made w b = b"
  by (induction b arbitrary: w) auto

lemma polls_made_first: "0 < b \<Longrightarrow> \<not> w 0 \<Longrightarrow> polls_made w b = 1"
  by (cases b) simp_all

lemma seen_at_0: "seen_at hw s 0 = eadc (hw_turn hw s)"
  by (simp add: seen_at_def)

lemma seen_at_Suc: "seen_at hw s (Suc k) = seen_at hw (hw_turn hw s) k"
  by (simp only: seen_at_def funpow_Suc_right o_apply)

lemma wait_reset_polls:
  "ticks (snd (wait_reset d hw n s)) =
     ticks s + polls_made (\<lambda>k. reset_pending d (seen_at hw s k)) (budget n)
   \<and> eadc (snd (wait_reset d hw n s)) =
     seen_at hw s (polls_made (\<lambda>k. reset_pending d (seen_at hw s k)) (budget n) - 1)"
proof (induction d hw n s rule: wait_reset.induct)
  case (1 d hw n s)
  let ?s1 = "hw_turn hw s"
  let ?w = "\<lambda>k. reset_pending d (seen_at hw s k)"
  show ?case
  proof (cases "reset_pending d (eadc ?s1)")
    case False
    then have r: "wait_reset d hw n s = (False, ?s1)"
      by (subst wait_reset.simps) (simp add: Let_def reset_pending_def)
    have "polls_made ?w (budget n) = 1"
      using False budget_pos [of n] by (intro polls_made_first) (simp_all add: seen_at_0)
    then show ?thesis by (simp add: r seen_at_0)
  next
    case pending: True
    show ?thesis
    proof (cases "n - 1 = 0")
      case True
      then have n: "n = 1" by simp
      have r: "wait_reset d hw n s = (True, ?s1\<lparr>g_EADC_i32ErrCode := EADC_TIMEOUT_ERR d\<rparr>)"
        using pending True by (subst wait_reset.simps) (simp add: Let_def reset_pending_def)
      have "polls_made ?w (budget n) = 1"
        using pending by (simp add: n budget_one seen_at_0)
      then show ?thesis by (simp add: r seen_at_0)
    next
      case False
      let ?w1 = "\<lambda>k. reset_pending d (seen_at hw ?s1 k)"
      have r: "wait_reset d hw n s = wait_reset d hw (n - 1) ?s1"
        using pending False by (subst wait_reset.simps) (simp add: Let_def reset_pending_def)
      have ih: "ticks (snd (wait_reset d hw (n - 1) ?s1)) =
                  ticks ?s1 + polls_made ?w1 (budget (n - 1))
                \<and> eadc (snd (wait_reset d hw (n - 1) ?s1)) =
                  seen_at hw ?s1 (polls_made ?w1 (budget (n - 1)) - 1)"
        using "1.IH" [OF refl _ False] pending by (simp add: reset_pending_def)
      have p: "polls_made ?w (budget n) = Suc (polls_made ?w1 (budget (n - 1)))"
        using pending by (simp add: budget_step [OF False] seen_at_0 seen_at_Suc)
      have pos: "0 < polls_made ?w1 (budget (n - 1))"
        using polls_made_bounds [OF budget_pos] by blast
      then have "seen_at hw s (polls_made ?w1 (budget (n - 1))) =
                 seen_at hw ?s1 (polls_made ?w1 (budget (n - 1)) - 1)"
        using seen_at_Suc [of hw s "polls_made ?w1 (budget (n - 1)) - 1"] by simp
      then show ?thesis
        using ih by (simp add: r p)
    qed
  qed
qed

lemma wait_calif_polls:
  "ticks (snd (wait_calif d hw n s)) =
     ticks s + polls_made (\<lambda>k. \<not> calif_set d (seen_at hw s k)) (budget n)
   \<and> eadc (snd (wait_calif d hw n s)) =
     seen_at hw s (polls_made (\<lambda>k. \<not> calif_set d (seen_at hw s k)) (budget n) - 1)"
proof (induction d hw n s rule: wait_calif.induct)
  case (1 d hw n s)
  let ?s1 = "hw_turn hw s"
  let ?w = "\<lambda>k. \<not> calif_set d (seen_at hw s k)"
  show ?case
  proof (cases "calif_set d (eadc ?s1)")
    case True
    then have r: "wait_calif d hw n s = (False, ?s1)"
      by (subst wait_calif.simps) (simp add: Let_def calif_set_def)
    have "polls_made ?w (budget n) = 1"
      using True budget_pos [of n] by (intro polls_made_first) (simp_all add: seen_at_0)
    then show ?thesis by (simp add: r seen_at_0)
  next
    case clear: False
    show ?thesis
    proof (cases "n - 1 = 0")
      case True
      then have n: "n = 1" by simp
      have r: "wait_calif d hw n s = (True, ?s1\<lparr>g_EADC_i32ErrCode := EADC_TIMEOUT_ERR d\<rparr>)"
        using clear True by (subst wait_calif.simps) (simp add: Let_def calif_set_def)
      have "polls_made ?w (budget n) = 1"
        using clear by (simp add: n budget_one seen_at_0)
      then show ?thesis by (simp add: r seen_at_0)
    next
      case False
      let ?w1 = "\<lambda>k. \<not> calif_set d (seen_at hw ?s1 k)"
      have r: "wait_calif d hw n s = wait_calif d hw (n - 1) ?s1"
        using clear False by (subst wait_calif.simps) (simp add: Let_def calif_set_def)
      have ih: "ticks (snd (wait_calif d hw (n - 1) ?s1)) =
                  ticks ?s1 + polls_made ?w1 (budget (n - 1))
                \<and> eadc (snd (wait_calif d hw (n - 1) ?s1)) =
                  seen_at hw ?s1 (polls_made ?w1 (budget (n - 1)) - 1)"
        using "1.IH" [OF refl _ False] clear by (simp add: calif_set_def)
      have p: "polls_made ?w (budget n) = Suc (polls_made ?w1 (budget (n - 1)))"
        using clear by (simp add: budget_step [OF False] seen_at_0 seen_at_Suc)
      have pos: "0 < polls_made ?w1 (budget (n - 1))"
        using polls_made_bounds [OF budget_pos] by blast
      then have "seen_at hw s (polls_made ?w1 (budget (n - 1))) =
                 seen_at hw ?s1 (polls_made ?w1 (budget (n - 1)) - 1)"
        using seen_at_Suc [of hw s "polls_made ?w1 (budget (n - 1)) - 1"] by simp
      then show ?thesis
        using ih by (simp add: r p)
    qed
  qed
qed

lemma seen_at_cong: "eadc s = eadc s' \<Longrightarrow> ticks s = ticks s' \<Longrightarrow> seen_at hw s k = seen_at hw s' k"
proof (induction k arbitrary: s s')
  case 0
  then show ?case by (simp add: seen_at_0)
next
  case (Suc k)
  have "eadc (hw_turn hw s) = eadc (hw_turn hw s')" "ticks (hw_turn hw s) = ticks (hw_turn hw s')"
    using Suc.prems by simp_all
  then show ?case
    unfolding seen_at_Suc by (rule Suc.IH)
qed

lemma calib_reset_view:
  "ticks (snd (calib_reset d hw f (calib_setup d s))) = ticks s + reset_polls d hw f s"
  "eadc (snd (calib_reset d hw f (calib_setup d s))) = reset_view d hw f s"
  using wait_reset_polls [of d hw f "EADC_CONV_RESET d (calib_setup d s)"]
  by (simp_all add: calib_reset_def reset_polls_def reset_view_def EADC_CONV_RESET_def
      calib_setup_simps)

lemma calib_midpoint_view:
  "ticks (calib_midpoint d hw f s) = ticks s + reset_polls d hw f s"
  "eadc (calib_midpoint d hw f s) =
     (reset_view d hw f s)\<lparr>CALSR := CALSR (reset_view d hw f s) OR EADC_CALSR_CALIF_Msk d,
                            CALCTL := CALCTL (reset_view d hw f s) OR EADC_CALCTL_CAL_Msk d\<rparr>"
  by (simp_all add: calib_midpoint_def calib_start_def Let_def calib_reset_view)

lemma calibration_final_view:
  assumes "calib_needed d s"
  shows "ticks (EADC_Calibration d hw f s) = ticks s + reset_polls d hw f s + calif_polls d hw f s"
    and "eadc (EADC_Calibration d hw f s) =
           seen_at hw (calib_midpoint d hw f s) (calif_polls d hw f s - 1)"
    and "new_writes s (EADC_Calibration d hw f s) =
           [(R_EADCSEL, (EADCSEL (clk s) AND CLK_EADCSEL_EADC0SEL_Msk d)
                          OR CLK_EADCSEL_EADC0SEL_PCLK0 d),
            (R_EADCDIV, EADCDIV (clk s) AND CLK_EADCDIV_EADC0DIV_Msk d),
            (R_CTL, CTL (eadc s) OR EADC_CTL_ADCEN_Msk d),
            (R_CTL, (CTL (eadc s) OR EADC_CTL_ADCEN_Msk d) OR EADC_CTL_ADCRST_Msk d),
            (R_CALSR, CALSR (reset_view d hw f s) OR EADC_CALSR_CALIF_Msk d),
            (R_CALCTL, CALCTL (reset_view d hw f s) OR EADC_CALCTL_CAL_Msk d),
            (R_EADCSEL, EADCSEL (clk s)),
            (R_EADCDIV, EADCDIV (clk s))]"
proof -
  from assms have n: "CALSR (eadc s) AND EADC_CALSR_CALIF_Msk d = 0"
    by (simp add: calib_needed_def)
  have b: "calib_body d hw f (calib_setup d s) =
      snd (wait_calif d hw (f div 20) (calib_midpoint d hw f s))"
    by (simp add: calib_body_def calib_finish_def calib_midpoint_def)
  note p = wait_calif_polls [of d hw "f div 20" "calib_midpoint d hw f s"]
  show "ticks (EADC_Calibration d hw f s) = ticks s + reset_polls d hw f s + calif_polls d hw f s"
    using p by (simp add: calibration_run [OF n] b calif_polls_def calib_midpoint_view)
  show "eadc (EADC_Calibration d hw f s) =
           seen_at hw (calib_midpoint d hw f s) (calif_polls d hw f s - 1)"
    using p by (simp add: calibration_run [OF n] b calif_polls_def)
  show "new_writes s (EADC_Calibration d hw f s) =
           [(R_EADCSEL, (EADCSEL (clk s) AND CLK_EADCSEL_EADC0SEL_Msk d)
                          OR CLK_EADCSEL_EADC0SEL_PCLK0 d),
            (R_EADCDIV, EADCDIV (clk s) AND CLK_EADCDIV_EADC0DIV_Msk d),
            (R_CTL, CTL (eadc s) OR EADC_CTL_ADCEN_Msk d),
            (R_CTL, (CTL (eadc s) OR EADC_CTL_ADCEN_Msk d) OR EADC_CTL_ADCRST_Msk d),
            (R_CALSR, CALSR (reset_view d hw f s) OR EADC_CALSR_CALIF_Msk d),
            (R_CALCTL, CALCTL (reset_view d hw f s) OR EADC_CALCTL_CAL_Msk d),
            (R_EADCSEL, EADCSEL (clk s)),
            (R_EADCDIV, EADCDIV (clk s))]"
    by (simp add: calibration_run [OF n] calib_body_simps calib_setup_simps new_writes_def
        calib_reset_view)
qed

text \<open>
  C3. Provided the timeout value is not zero (it is what distinguishes it from "no
  error"): after a call the error code is the timeout value exactly when the branch was
  taken and the first or the second loop was left through its break, and otherwise it is
  zero. A loop is left through its break exactly when every poll its countdown allows
  saw the awaited bit in the wrong state; so if the hardware clears ADCRST and sets
  CALIF within the countdowns, the code is zero. A timeout aborts nothing: whenever the
  branch is taken the log holds all eight stores with their values, the CALSR and
  CALCTL stores after the first loop and the two restoring stores last; the second loop
  starts from what the first loop's last poll saw, with those two stores made, and
  polls at least once, so that the call makes the polls of the first loop and then the
  polls of the second, also when the first loop timed out; the converter block ends as
  the last poll of the second loop saw it, and the clock controller as it began.
\<close>

theorem calibration_error_code:
  assumes "EADC_TIMEOUT_ERR d \<noteq> 0"
  shows "(g_EADC_i32ErrCode (EADC_Calibration d hw f s) = EADC_TIMEOUT_ERR d \<longleftrightarrow>
            calib_needed d s \<and>
            (reset_poll_exhausted d hw f s \<or> calif_poll_exhausted d hw f s))
       \<and> (g_EADC_i32ErrCode (EADC_Calibration d hw f s) = EADC_TIMEOUT_ERR d
            \<or> g_EADC_i32ErrCode (EADC_Calibration d hw f s) = 0)
       \<and> (reset_poll_exhausted d hw f s \<longleftrightarrow>
            (\<forall>k < budget f. reset_pending d (seen_at hw (EADC_CONV_RESET d (calib_setup d s)) k)))
       \<and> (calif_poll_exhausted d hw f s \<longleftrightarrow>
            (\<forall>k < budget (f div 20). \<not> calif_set d (seen_at hw (calib_midpoint d hw f s) k)))
       \<and> (calib_needed d s \<longrightarrow>
            new_writes s (EADC_Calibration d hw f s) =
              [(R_EADCSEL, (EADCSEL (clk s) AND CLK_EADCSEL_EADC0SEL_Msk d)
                             OR CLK_EADCSEL_EADC0SEL_PCLK0 d),
               (R_EADCDIV, EADCDIV (clk s) AND CLK_EADCDIV_EADC0DIV_Msk d),
               (R_CTL, CTL (eadc s) OR EADC_CTL_ADCEN_Msk d),
               (R_CTL, (CTL (eadc s) OR EADC_CTL_ADCEN_Msk d) OR EADC_CTL_ADCRST_Msk d),
               (R_CALSR, CALSR (reset_view d hw f s) OR EADC_CALSR_CALIF_Msk d),
               (R_CALCTL, CALCTL (reset_view d hw f s) OR EADC_CALCTL_CAL_Msk d),
               (R_EADCSEL, EADCSEL (clk s)),
               (R_EADCDIV, EADCDIV (clk s))])
       \<and> clk (EADC_Calibration d hw f s) = clk s
       \<and> (calib_needed d s \<longrightarrow>
            ticks (EADC_Calibration d hw f s) =
              ticks s + reset_polls d hw f s + calif_polls d hw f s)
       \<and> 0 < reset_polls d hw f s \<and> reset_polls d hw f s \<le> budget f
       \<and> 0 < calif_polls d hw f s \<and> calif_polls d hw f s \<le> budget (f div 20)
       \<and> (reset_poll_exhausted d hw f s \<longrightarrow> reset_polls d hw f s = budget f)
       \<and> ticks (calib_midpoint d hw f s) = ticks s + reset_polls d hw f s
       \<and> eadc (calib_midpoint d hw f s) =
            (reset_view d hw f s)\<lparr>CALSR := CALSR (reset_view d hw f s) OR EADC_CALSR_CALIF_Msk d,
                                   CALCTL := CALCTL (reset_view d hw f s) OR EADC_CALCTL_CAL_Msk d\<rparr>
       \<and> (calib_needed d s \<longrightarrow>
            eadc (EADC_Calibration d hw f s) =
              seen_at hw (calib_midpoint d hw f s) (calif_polls d hw f s - 1))
       \<and> eadc (EADC_CONV_RESET d (calib_setup d s)) =
            (eadc s)\<lparr>CTL := (CTL (eadc s) OR EADC_CTL_ADCEN_Msk d) OR EADC_CTL_ADCRST_Msk d\<rparr>
       \<and> ticks (EADC_CONV_RESET d (calib_setup d s)) = ticks s"
proof -
  have 1: "g_EADC_i32ErrCode (EADC_Calibration d hw f s) = EADC_TIMEOUT_ERR d \<longleftrightarrow>
            calib_needed d s \<and>
            (reset_poll_exhausted d hw f s \<or> calif_poll_exhausted d hw f s)"
    using assms by (simp add: calibration_err)
  have 2: "g_EADC_i32ErrCode (EADC_Calibration d hw f s) = EADC_TIMEOUT_ERR d
            \<or> g_EADC_i32ErrCode (EADC_Calibration d hw f s) = 0"
    by (simp add: calibration_err)
  have 3: "reset_poll_exhausted d hw f s \<longleftrightarrow>
            (\<forall>k < budget f. reset_pending d (seen_at hw (EADC_CONV_RESET d (calib_setup d s)) k))"
    by (simp add: reset_poll_exhausted_def calib_reset_def wait_reset_exhausted)
  have 4: "calif_poll_exhausted d hw f s \<longleftrightarrow>
            (\<forall>k < budget (f div 20). \<not> calif_set d (seen_at hw (calib_midpoint d hw f s) k))"
    by (simp add: calif_poll_exhausted_def calib_finish_def wait_calif_exhausted)
  have 6: "clk (EADC_Calibration d hw f s) = clk s"
  proof (cases "CALSR (eadc s) AND EADC_CALSR_CALIF_Msk d = 0")
    case True
    show ?thesis by (simp add: calibration_run [OF True] calib_body_simps calib_setup_simps)
  next
    case False
    show ?thesis by (simp add: calibration_skip [OF False] calib_setup_simps)
  qed
  have 8: "0 < reset_polls d hw f s \<and> reset_polls d hw f s \<le> budget f"
    unfolding reset_polls_def by (rule polls_made_bounds [OF budget_pos])
  have 9: "0 < calif_polls d hw f s \<and> calif_polls d hw f s \<le> budget (f div 20)"
    unfolding calif_polls_def by (rule polls_made_bounds [OF budget_pos])
  have 10: "reset_poll_exhausted d hw f s \<longrightarrow> reset_polls d hw f s = budget f"
    unfolding 3 reset_polls_def by (simp add: polls_made_all)
  have 11: "eadc (EADC_CONV_RESET d (calib_setup d s)) =
            (eadc s)\<lparr>CTL := (CTL (eadc s) OR EADC_CTL_ADCEN_Msk d) OR EADC_CTL_ADCRST_Msk d\<rparr>"
    by (simp add: EADC_CONV_RESET_def calib_setup_simps)
  have 12: "ticks (EADC_CONV_RESET d (calib_setup d s)) = ticks s"
    by (simp add: EADC_CONV_RESET_def calib_setup_simps)
  show ?thesis
    using 1 2 3 4 6 8 9 10 11 12 calibration_final_view [of d s hw f]
      calib_midpoint_view [of d hw f s]
    by (intro conjI impI) blast+
qed

lemma seen_prompt:
  "seen_at hw_prompt s 0 = (eadc s)\<lparr>CTL := CTL (eadc s) AND NOT 0x2, CALSR := CALSR (eadc s) OR 0x10000\<rparr>"
  by (simp add: seen_at_def hw_prompt_def)

lemma seen_stuck:
  "CTL (seen_at hw_stuck s k) AND 0x2 = 0x2" "CALSR (seen_at hw_stuck s k) AND 0x10000 = 0"
  by (simp_all add: seen_at_def hw_stuck_def word_bw_assocs)

lemma stuck_polls:
  "reset_polls sample_defs hw_stuck f s = budget f"
  "calif_polls sample_defs hw_stuck f s = budget (f div 20)"
  by (simp_all add: reset_polls_def calif_polls_def polls_made_all reset_pending_def
      calif_set_def seen_stuck sample_defs_def)

lemma prompt_polls:
  "reset_polls sample_defs hw_prompt f s = 1"
  "calif_polls sample_defs hw_prompt f s = 1"
  by (simp_all add: reset_polls_def calif_polls_def polls_made_first budget_pos
      reset_pending_def calif_set_def seen_prompt sample_defs_def word_bw_assocs)

theorem calibration_error_code_witness:
  "EADC_TIMEOUT_ERR sample_defs \<noteq> 0
   \<and> g_EADC_i32ErrCode (EADC_Calibration sample_defs hw_prompt 40 m0) = 0
   \<and> ticks (EADC_Calibration sample_defs hw_prompt 40 m0) = 2
   \<and> g_EADC_i32ErrCode (EADC_Calibration sample_defs hw_stuck 40 m0) = 0xFFFFFFFF
   \<and> ticks (EADC_Calibration sample_defs hw_stuck 40 m0) = 42"
proof -
  have h: "EADC_TIMEOUT_ERR sample_defs \<noteq> 0"
    by (simp add: sample_defs_def)
  have n: "calib_needed sample_defs m0"
    by (simp add: calib_needed_def m0_def)
  have b: "0 < budget 40" "0 < budget (40 div 20)" "budget 40 = 40" "budget (40 div 20) = 2"
    by (simp_all add: budget_def)
  have p1: "\<not> reset_pending sample_defs
              (seen_at hw_prompt (EADC_CONV_RESET sample_defs (calib_setup sample_defs m0)) 0)"
    by (simp add: seen_prompt reset_pending_def sample_defs_def word_bw_assocs)
  have p2: "calif_set sample_defs
              (seen_at hw_prompt (calib_midpoint sample_defs hw_prompt 40 m0) 0)"
    by (simp add: seen_prompt calif_set_def sample_defs_def word_bw_assocs)
  have s1: "reset_pending sample_defs
              (seen_at hw_stuck (EADC_CONV_RESET sample_defs (calib_setup sample_defs m0)) k)" for k
    by (simp add: seen_stuck reset_pending_def sample_defs_def)
  have t0: "ticks m0 = 0" by (simp add: m0_def)
  note a = calibration_error_code [OF h, of hw_prompt 40 m0]
  note c = calibration_error_code [OF h, of hw_stuck 40 m0]
  from a p1 p2 b
  have 1: "g_EADC_i32ErrCode (EADC_Calibration sample_defs hw_prompt 40 m0) = 0"
    by blast
  from a n have "ticks (EADC_Calibration sample_defs hw_prompt 40 m0) =
      ticks m0 + reset_polls sample_defs hw_prompt 40 m0 + calif_polls sample_defs hw_prompt 40 m0"
    by blast
  then have 2: "ticks (EADC_Calibration sample_defs hw_prompt 40 m0) = 2"
    by (simp add: prompt_polls t0)
  from c s1 n
  have 3: "g_EADC_i32ErrCode (EADC_Calibration sample_defs hw_stuck 40 m0) = EADC_TIMEOUT_ERR sample_defs"
    by blast
  from c n have "ticks (EADC_Calibration sample_defs hw_stuck 40 m0) =
      ticks m0 + reset_polls sample_defs hw_stuck 40 m0 + calif_polls sample_defs hw_stuck 40 m0"
    by blast
  then have 4: "ticks (EADC_Calibration sample_defs hw_stuck 40 m0) = 42"
    by (simp add: stuck_polls t0 budget_def)
  from h 1 2 3 4 show ?thesis
    by (simp add: sample_defs_def)
qed

lemma calib_body_ticks_exhausted:
  assumes "fst (calib_reset d hw f s)"
    and "fst (calib_finish d hw f (calib_start d (snd (calib_reset d hw f s))))"
  shows "ticks (calib_body d hw f s) = ticks s + budget f + budget (f div 20)"
proof -
  let ?a = "snd (calib_reset d hw f s)"
  have "ticks ?a = ticks s + budget f"
    using assms(1) wait_reset_ticks [of d hw f "EADC_CONV_RESET d s"]
    by (simp add: calib_reset_def EADC_CONV_RESET_def)
  moreover have "ticks (calib_body d hw f s) = ticks (calib_start d ?a) + budget (f div 20)"
    using assms(2) wait_calif_ticks [of d hw "f div 20" "calib_start d ?a"]
    by (simp add: calib_body_def calib_finish_def)
  moreover have "ticks (calib_start d ?a) = ticks ?a"
    by (simp add: calib_start_def Let_def)
  ultimately show ?thesis by simp
qed

text \<open>
  C7, as stated, fails where the countdown is seeded with zero. With SystemCoreClock = 0
  and hardware that never clears ADCRST the first loop polls \<open>2 ^ 32\<close> times, not at
  most zero times; with SystemCoreClock = 19 the second countdown is 19 / 20 = 0 and,
  with hardware that never sets CALIF, the second loop polls \<open>2 ^ 32\<close> times. A whole
  calibration with SystemCoreClock = 0 on such hardware polls \<open>2 ^ 33\<close> times.
\<close>

theorem calibration_zero_clock_counterexample:
  "\<not> ticks (snd (calib_reset sample_defs hw_stuck 0 m0)) \<le> ticks m0 + unat (0 :: u32)
   \<and> ticks (snd (calib_reset sample_defs hw_stuck 0 m0)) = ticks m0 + 4294967296
   \<and> ticks (snd (calib_finish sample_defs hw_stuck 19 m0)) = ticks m0 + 4294967296
   \<and> ticks (EADC_Calibration sample_defs hw_stuck 0 m0) = ticks m0 + 8589934592"
proof -
  have "fst (calib_reset sample_defs hw_stuck 0 m0)"
    by (simp add: calib_reset_def wait_reset_exhausted reset_pending_def seen_stuck sample_defs_def)
  then have 1: "ticks (snd (calib_reset sample_defs hw_stuck 0 m0)) = ticks m0 + budget 0"
    using wait_reset_ticks [of sample_defs hw_stuck 0 "EADC_CONV_RESET sample_defs m0"]
    by (simp add: calib_reset_def EADC_CONV_RESET_def)
  have "fst (calib_finish sample_defs hw_stuck 19 m0)"
    by (simp add: calib_finish_def wait_calif_exhausted calif_set_def seen_stuck sample_defs_def)
  then have 2: "ticks (snd (calib_finish sample_defs hw_stuck 19 m0)) = ticks m0 + budget 0"
    using wait_calif_ticks [of sample_defs hw_stuck 0 m0]
    by (simp add: calib_finish_def)
  have n: "CALSR (eadc m0) AND EADC_CALSR_CALIF_Msk sample_defs = 0"
    by (simp add: m0_def)
  have a: "fst (calib_reset sample_defs hw_stuck 0 s)" for s
    by (simp add: calib_reset_def wait_reset_exhausted reset_pending_def seen_stuck sample_defs_def)
  have b: "fst (calib_finish sample_defs hw_stuck 0 s)" for s
    by (simp add: calib_finish_def wait_calif_exhausted calif_set_def seen_stuck sample_defs_def)
  have 3: "ticks (EADC_Calibration sample_defs hw_stuck 0 m0) = ticks m0 + budget 0 + budget 0"
    using calib_body_ticks_exhausted [OF a b, of "calib_setup sample_defs m0"]
    by (simp add: calibration_run [OF n] calib_setup_simps)
  show ?thesis
    using 1 2 3 by (simp add: budget_def)
qed

lemma calib_body_ticks:
  "ticks (calib_body d hw f s) \<le> ticks s + budget f + budget (f div 20)"
proof -
  let ?a = "snd (calib_reset d hw f s)"
  have "ticks ?a \<le> ticks s + budget f"
    using wait_reset_ticks [of d hw f "EADC_CONV_RESET d s"]
    by (simp add: calib_reset_def EADC_CONV_RESET_def)
  moreover have "ticks (calib_body d hw f s) \<le> ticks (calib_start d ?a) + budget (f div 20)"
    using wait_calif_ticks [of d hw "f div 20" "calib_start d ?a"]
    by (simp add: calib_body_def calib_finish_def)
  moreover have "ticks (calib_start d ?a) = ticks ?a"
    by (simp add: calib_start_def Let_def)
  ultimately show ?thesis by simp
qed

text \<open>
  C7, amended. For every hardware behaviour and every SystemCoreClock both loops end:
  the first after at most \<open>budget SystemCoreClock\<close> polls and the second after at most
  \<open>budget (SystemCoreClock / 20)\<close> polls, where a countdown seeded with a positive
  \<open>n\<close> allows \<open>n\<close> polls and one seeded with zero allows \<open>2 ^ 32\<close>. So the bounds are
  SystemCoreClock and SystemCoreClock / 20 when SystemCoreClock is at least 1, and at
  least 20, and \<open>2 ^ 32\<close> below that.
\<close>

theorem calibration_poll_bounds:
  "ticks (snd (calib_reset d hw f s)) \<le> ticks s + budget f
   \<and> ticks (snd (calib_finish d hw f s)) \<le> ticks s + budget (f div 20)
   \<and> ticks (EADC_Calibration d hw f s) \<le> ticks s + budget f + budget (f div 20)
   \<and> budget f = (if f = 0 then 2 ^ 32 else unat f)
   \<and> budget (f div 20) = (if f < 20 then 2 ^ 32 else unat f div 20)"
proof -
  have 1: "ticks (snd (calib_reset d hw f s)) \<le> ticks s + budget f"
    using wait_reset_ticks [of d hw f "EADC_CONV_RESET d s"]
    by (simp add: calib_reset_def EADC_CONV_RESET_def)
  have 2: "ticks (snd (calib_finish d hw f s)) \<le> ticks s + budget (f div 20)"
    using wait_calif_ticks [of d hw "f div 20" s] by (simp add: calib_finish_def)
  have 3: "ticks (EADC_Calibration d hw f s) \<le> ticks s + budget f + budget (f div 20)"
  proof (cases "CALSR (eadc s) AND EADC_CALSR_CALIF_Msk d = 0")
    case True
    show ?thesis
      using calib_body_ticks [of d hw f "calib_setup d s"]
      by (simp add: calibration_run [OF True] calib_setup_simps)
  next
    case False
    show ?thesis by (simp add: calibration_skip [OF False] calib_setup_simps)
  qed
  have 4: "budget f = (if f = 0 then 2 ^ 32 else unat f)"
    by (simp add: budget_def)
  have "unat f div 20 = 0 \<longleftrightarrow> unat f < 20"
    by arith
  then have "f div 20 = 0 \<longleftrightarrow> f < 20"
    by (simp add: word_less_nat_alt unat_div flip: unat_eq_0)
  then have 5: "budget (f div 20) = (if f < 20 then 2 ^ 32 else unat f div 20)"
    by (simp add: budget_def unat_div)
  from 1 2 3 4 5 show ?thesis by blast
qed

subsection \<open>The clock setup of the calibration\<close>

lemma calib_setup_keeps_fields:
  "EADCSEL (clk (calib_setup d s)) AND CLK_EADCSEL_EADC0SEL_Msk d =
     (EADCSEL (clk s) OR CLK_EADCSEL_EADC0SEL_PCLK0 d) AND CLK_EADCSEL_EADC0SEL_Msk d"
  "EADCDIV (clk (calib_setup d s)) AND CLK_EADCDIV_EADC0DIV_Msk d =
     EADCDIV (clk s) AND CLK_EADCDIV_EADC0DIV_Msk d"
  by (simp_all add: calib_setup_simps bit_eq_iff bit_and_iff bit_or_iff) blast

text \<open>
  C4. Lines 78 and 79 mask with the field masks themselves, not with their complements:
  the store to EADCSEL keeps the old source field and sets the bits of PCLK0 on top of
  it, and the store to EADCDIV keeps the old divider field; both loops run with that
  clock setting. From EADCSEL = 1 and EADCDIV = 5 the calibration runs with EADCSEL = 3,
  which is not the PCLK0 selection 2, and with the divider still 5.
\<close>

theorem calibration_clock_not_reprogrammed:
  "clk (calib_setup d s) =
     \<lparr>EADCSEL = (EADCSEL (clk s) AND CLK_EADCSEL_EADC0SEL_Msk d) OR CLK_EADCSEL_EADC0SEL_PCLK0 d,
      EADCDIV = EADCDIV (clk s) AND CLK_EADCDIV_EADC0DIV_Msk d\<rparr>
   \<and> clk (calib_midpoint d hw f s) = clk (calib_setup d s)
   \<and> EADCDIV (clk (calib_setup d s)) AND CLK_EADCDIV_EADC0DIV_Msk d =
       EADCDIV (clk s) AND CLK_EADCDIV_EADC0DIV_Msk d
   \<and> EADCSEL (clk m0) = 1 \<and> EADCDIV (clk m0) = 5
   \<and> CLK_EADCSEL_EADC0SEL_PCLK0 sample_defs = 2
   \<and> EADCSEL (clk (calib_setup sample_defs m0)) = 3
   \<and> EADCDIV (clk (calib_setup sample_defs m0)) = 5"
proof -
  have 1: "clk (calib_setup d s) =
     \<lparr>EADCSEL = (EADCSEL (clk s) AND CLK_EADCSEL_EADC0SEL_Msk d) OR CLK_EADCSEL_EADC0SEL_PCLK0 d,
      EADCDIV = EADCDIV (clk s) AND CLK_EADCDIV_EADC0DIV_Msk d\<rparr>"
    by (rule calib_setup_simps(1))
  have 2: "clk (calib_midpoint d hw f s) = clk (calib_setup d s)"
    by (simp add: calib_midpoint_def calib_start_def calib_reset_def EADC_CONV_RESET_def
        Let_def wait_reset_frame)
  have 3: "EADCDIV (clk (calib_setup d s)) AND CLK_EADCDIV_EADC0DIV_Msk d =
       EADCDIV (clk s) AND CLK_EADCDIV_EADC0DIV_Msk d"
    by (rule calib_setup_keeps_fields(2))
  have 4: "EADCSEL (clk m0) = 1 \<and> EADCDIV (clk m0) = 5
      \<and> CLK_EADCSEL_EADC0SEL_PCLK0 sample_defs = 2
      \<and> EADCSEL (clk (calib_setup sample_defs m0)) = 3
      \<and> EADCDIV (clk (calib_setup sample_defs m0)) = 5"
    by (simp add: calib_setup_simps m0_def sample_defs_def)
  from 1 2 3 4 show ?thesis by blast
qed

subsection \<open>Loads and stores through a computed address\<close>

lemma same_offset:
  fixes a b c :: waddr
  assumes "unat (a - c) = unat (b - c)"
  shows "a = b"
proof -
  from assms have "a - c = b - c" by (rule unsigned_word_eqI)
  then show ?thesis by simp
qed

lemma locate_inj: "locate lay a = locate lay b \<Longrightarrow> a = b"
  by (auto simp add: locate_def split: if_splits dest: same_offset)

lemma load_store: "load r' (store r v s) = (if r' = r then v else load r' s)"
  by (cases r; cases r') (simp_all add: write_EADCSEL_def write_EADCDIV_def write_CTL_def
      write_CALSR_def write_CALCTL_def)

lemma store_frame [simp]:
  "ticks (store r v s) = ticks s"
  "writes (store r v s) = writes s @ [(r, v)]"
  by (cases r; simp add: write_EADCSEL_def write_EADCDIV_def write_CTL_def
      write_CALSR_def write_CALCTL_def)+

lemma load_store_word:
  "load_word lay b (store_word lay a v s) = (if b = a then v else load_word lay b s)"
  using locate_inj [of lay b a] by (auto simp add: load_word_def store_word_def load_store)

lemma rmw_word_load:
  "load_word lay b (rmw_word lay a m v s) =
     (if b = a then (load_word lay a s AND NOT m) OR v else load_word lay b s)"
  by (simp add: rmw_word_def Let_def load_store_word)

lemma rmw_word_frame:
  "ticks (rmw_word lay a m v s) = ticks s"
  "new_writes s (rmw_word lay a m v s) =
     [(locate lay a, load_word lay a s AND NOT m),
      (locate lay a, (load_word lay a s AND NOT m) OR v)]"
  by (simp_all add: rmw_word_def Let_def store_word_def load_word_def load_store new_writes_def)

lemma store_err:
  "g_EADC_i32ErrCode (store r v s) = (if r = R_ErrCode then v else g_EADC_i32ErrCode s)"
  by (cases r) simp_all

lemma rmw_word_err:
  "g_EADC_i32ErrCode (rmw_word lay a m v s) =
     (if locate lay a = R_ErrCode then (g_EADC_i32ErrCode s AND NOT m) OR v
      else g_EADC_i32ErrCode s)"
  by (simp add: rmw_word_def Let_def store_word_def load_word_def store_err load_store)

lemma past_index:
  fixes n :: u32
  assumes "27 < n"
  shows "sample_module_word lay n = addr_SCTL19 lay + ucast (n - 19)"
    and "unat (sample_module_word lay n - addr_SCTL19 lay) = (unat n - 19) mod 2 ^ 30"
proof -
  from assms have a: "27 < unat n" by (simp add: word_less_nat_alt)
  then have "\<not> n < 19" by (simp add: word_less_nat_alt)
  then show w: "sample_module_word lay n = addr_SCTL19 lay + ucast (n - 19)"
    by (simp add: sample_module_word_def)
  have "19 \<le> n" using a by (simp add: word_le_nat_alt)
  then have s: "unat (n - 19) = unat n - 19" by (simp add: unat_sub)
  have "unat (ucast (n - 19) :: waddr) = unat (n - 19) mod 2 ^ 30"
    by (simp add: unsigned_ucast_eq take_bit_eq_mod)
  then show "unat (sample_module_word lay n - addr_SCTL19 lay) = (unat n - 19) mod 2 ^ 30"
    by (simp add: w s)
qed

lemma in_range_word:
  fixes n :: u32
  assumes "n \<le> 27"
  shows "(n < 19 \<longrightarrow> unat (sample_module_word lay n - addr_SCTL lay) < 19)
       \<and> (\<not> n < 19 \<longrightarrow> unat (sample_module_word lay n - addr_SCTL19 lay) < SCTL19_len)"
proof -
  from assms have a: "unat n \<le> 27" by (simp add: word_le_nat_alt)
  show ?thesis
  proof (cases "n < 19")
    case True
    then have "unat n < 19" by (simp add: word_less_nat_alt)
    then have "unat (ucast n :: waddr) < 19"
      by (simp add: unsigned_ucast_eq take_bit_eq_mod)
    with True show ?thesis by (simp add: sample_module_word_def)
  next
    case False
    then have b: "19 \<le> unat n" by (simp add: word_less_nat_alt)
    then have "19 \<le> n" by (simp add: word_le_nat_alt)
    then have "unat (n - 19) = unat n - 19" by (simp add: unat_sub)
    then have "unat (ucast (n - 19) :: waddr) < 9"
      using a b by (simp add: unsigned_ucast_eq take_bit_eq_mod)
    with False show ?thesis by (simp add: sample_module_word_def SCTL19_len_def)
  qed
qed

lemma locate_ErrCode: "locate lay a = R_ErrCode \<Longrightarrow> a = addr_ErrCode lay"
  by (simp add: locate_def split: if_splits)

lemma in_range_not_ErrCode:
  fixes n :: u32
  assumes "n \<le> 27"
    and "19 \<le> unat (addr_ErrCode lay - addr_SCTL lay)"
    and "SCTL19_len \<le> unat (addr_ErrCode lay - addr_SCTL19 lay)"
  shows "locate lay (sample_module_word lay n) \<noteq> R_ErrCode"
proof
  assume "locate lay (sample_module_word lay n) = R_ErrCode"
  then have "sample_module_word lay n = addr_ErrCode lay" by (rule locate_ErrCode)
  with in_range_word [OF assms(1), of lay] assms(2,3) show False
    by (cases "n < 19") simp_all
qed

lemma open_err:
  "g_EADC_i32ErrCode (EADC_Open d hw f u32InputMode s) =
     (if calib_needed d (open_prepared d u32InputMode s)
         \<and> (reset_poll_exhausted d hw f (open_prepared d u32InputMode s)
              \<or> calif_poll_exhausted d hw f (open_prepared d u32InputMode s))
      then EADC_TIMEOUT_ERR d else 0)"
  by (simp only: EADC_Open_def calibration_err)

subsection \<open>The life of the error code\<close>

text \<open>
  C6, as stated, fails: line 71 sets the error code to zero at the start of every
  calibration. A state that holds the timeout value of an earlier call, calibrated again
  without a timeout, ends with the code zero.
\<close>

theorem stale_timeout_cleared_counterexample:
  "g_EADC_i32ErrCode m_stale = EADC_TIMEOUT_ERR sample_defs
   \<and> EADC_TIMEOUT_ERR sample_defs \<noteq> 0
   \<and> g_EADC_i32ErrCode (EADC_Calibration sample_defs hw_prompt 40 m_stale) = 0"
  by (simp add: calibration_err calib_needed_def m_stale_def m_calibrated_def m0_def
      sample_defs_def)

text \<open>
  C6, amended. EADC\_Calibration overwrites the error code on every call, whatever it
  held before: with the timeout value when one of this call's loops was left through its
  break, and with zero otherwise. EADC\_Open is its two stores to CTL followed by a
  calibration, and leaves the code that calibration leaves. EADC\_Close leaves the code
  as it was. EADC\_ConfigSampleModule, EADC\_SetTriggerDelayTime and
  EADC\_SetExtendSampleTime write the code only when the word their index addresses is
  the error code itself, and leave it as it was otherwise; no index from 0 to 27
  addresses it when the error code lies outside the two arrays.
\<close>

theorem error_code_lifecycle:
  "g_EADC_i32ErrCode (EADC_Calibration d hw f s) =
     (if calib_needed d s \<and> (reset_poll_exhausted d hw f s \<or> calif_poll_exhausted d hw f s)
      then EADC_TIMEOUT_ERR d else 0)
   \<and> g_EADC_i32ErrCode (EADC_Open d hw f u32InputMode s) =
     (if calib_needed d (open_prepared d u32InputMode s)
         \<and> (reset_poll_exhausted d hw f (open_prepared d u32InputMode s)
              \<or> calif_poll_exhausted d hw f (open_prepared d u32InputMode s))
      then EADC_TIMEOUT_ERR d else 0)
   \<and> open_prepared d u32InputMode s =
       write_CTL ((CTL (eadc s) AND NOT (EADC_CTL_DIFFEN_Msk d))
                    OR (u32InputMode OR EADC_CTL_ADCEN_Msk d))
         (write_CTL (CTL (eadc s) AND NOT (EADC_CTL_DIFFEN_Msk d)) s)
   \<and> g_EADC_i32ErrCode (EADC_Close d s) = g_EADC_i32ErrCode s
   \<and> g_EADC_i32ErrCode (EADC_ConfigSampleModule lay d u32ModuleNum u32TriggerSrc u32Channel s) =
       (if locate lay (sample_module_word lay u32ModuleNum) = R_ErrCode
        then (g_EADC_i32ErrCode s AND NOT (EADC_SCTL_EXTFEN_Msk d OR EADC_SCTL_EXTREN_Msk d
                OR EADC_SCTL_TRGSEL_Msk d OR EADC_SCTL_CHSEL_Msk d))
             OR (u32TriggerSrc OR u32Channel)
        else g_EADC_i32ErrCode s)
   \<and> g_EADC_i32ErrCode (EADC_SetTriggerDelayTime lay d u32ModuleNum u32TriggerDelayTime
        u32DelayClockDivider s) =
       (if locate lay (sample_module_word lay u32ModuleNum) = R_ErrCode
        then (g_EADC_i32ErrCode s AND NOT (EADC_SCTL_TRGDLDIV_Msk d OR EADC_SCTL_TRGDLCNT_Msk d))
             OR (push_bit (EADC_SCTL_TRGDLCNT_Pos d) u32TriggerDelayTime OR u32DelayClockDivider)
        else g_EADC_i32ErrCode s)
   \<and> g_EADC_i32ErrCode (EADC_SetExtendSampleTime lay d u32ModuleNum u32ExtendSampleTime s) =
       (if locate lay (sample_module_word lay u32ModuleNum) = R_ErrCode
        then (g_EADC_i32ErrCode s AND NOT (EADC_SCTL_EXTSMPT_Msk d))
             OR push_bit (EADC_SCTL_EXTSMPT_Pos d) u32ExtendSampleTime
        else g_EADC_i32ErrCode s)
   \<and> (u32ModuleNum \<le> 27
        \<and> 19 \<le> unat (addr_ErrCode lay - addr_SCTL lay)
        \<and> SCTL19_len \<le> unat (addr_ErrCode lay - addr_SCTL19 lay)
       \<longrightarrow> locate lay (sample_module_word lay u32ModuleNum) \<noteq> R_ErrCode)"
proof -
  have 1: "g_EADC_i32ErrCode (EADC_Calibration d hw f s) =
     (if calib_needed d s \<and> (reset_poll_exhausted d hw f s \<or> calif_poll_exhausted d hw f s)
      then EADC_TIMEOUT_ERR d else 0)"
    by (rule calibration_err)
  have 3: "open_prepared d u32InputMode s =
       write_CTL ((CTL (eadc s) AND NOT (EADC_CTL_DIFFEN_Msk d))
                    OR (u32InputMode OR EADC_CTL_ADCEN_Msk d))
         (write_CTL (CTL (eadc s) AND NOT (EADC_CTL_DIFFEN_Msk d)) s)"
    by (simp add: open_prepared_def Let_def)
  have 4: "g_EADC_i32ErrCode (EADC_Close d s) = g_EADC_i32ErrCode s"
    by (simp add: EADC_Close_def)
  have 8: "u32ModuleNum \<le> 27
        \<and> 19 \<le> unat (addr_ErrCode lay - addr_SCTL lay)
        \<and> SCTL19_len \<le> unat (addr_ErrCode lay - addr_SCTL19 lay)
       \<longrightarrow> locate lay (sample_module_word lay u32ModuleNum) \<noteq> R_ErrCode"
    using in_range_not_ErrCode [of u32ModuleNum lay] by blast
  show ?thesis
    using 1 open_err [of d hw f u32InputMode s] 3 4 8
    unfolding EADC_ConfigSampleModule_def EADC_SetTriggerDelayTime_def
      EADC_SetExtendSampleTime_def rmw_word_err
    by blast
qed

theorem error_code_lifecycle_witness:
  "(5 :: u32) \<le> 27
   \<and> 19 \<le> unat (addr_ErrCode sample_layout - addr_SCTL sample_layout)
   \<and> SCTL19_len \<le> unat (addr_ErrCode sample_layout - addr_SCTL19 sample_layout)
   \<and> locate sample_layout (sample_module_word sample_layout 5) = R_SCTL 5
   \<and> g_EADC_i32ErrCode (EADC_ConfigSampleModule sample_layout sample_defs 5 0x10000 3 m_stale)
       = 0xFFFFFFFF
   \<and> g_EADC_i32ErrCode (EADC_Close sample_defs m_stale) = 0xFFFFFFFF
   \<and> g_EADC_i32ErrCode (EADC_Calibration sample_defs hw_prompt 40 m_stale) = 0"
proof -
  have h: "(5 :: u32) \<le> 27
     \<and> 19 \<le> unat (addr_ErrCode sample_layout - addr_SCTL sample_layout)
     \<and> SCTL19_len \<le> unat (addr_ErrCode sample_layout - addr_SCTL19 sample_layout)"
    by (simp add: sample_layout_def SCTL19_len_def)
  have l: "locate sample_layout (sample_module_word sample_layout 5) = R_SCTL 5"
    by (simp add: locate_def sample_module_word_def sample_layout_def SCTL19_len_def)
  have n: "\<not> calib_needed sample_defs m_stale"
    by (simp add: calib_needed_def m_stale_def m_calibrated_def m0_def sample_defs_def)
  have e: "g_EADC_i32ErrCode m_stale = 0xFFFFFFFF"
    by (simp add: m_stale_def)
  show ?thesis
    using h l n e
      error_code_lifecycle [of sample_defs hw_prompt 40 m_stale 0 sample_layout 5 "0x10000" 3 0 0 0]
    by simp
qed

subsection \<open>The sample-module index\<close>

text \<open>
  C5, as stated, fails: the only test on the index is \<open>u32ModuleNum < 19\<close>, which
  chooses between the two arrays. With index 28 EADC\_ConfigSampleModule takes the else
  branch and stores twice to the word after the ninth element of \<open>SCTL19\<close>; with
  index 0x37FEF3DF, in the sample layout, the word it stores to is the error code.
\<close>

theorem sample_module_index_unchecked_counterexample:
  "\<not> (28 :: u32) \<le> 27
   \<and> locate sample_layout (sample_module_word sample_layout 28) = R_MEM 0x10010C7D
   \<and> mem m0 0x10010C7D = 0
   \<and> mem (EADC_ConfigSampleModule sample_layout sample_defs 28 0x10000 3 m0) 0x10010C7D = 0x10003
   \<and> writes (EADC_ConfigSampleModule sample_layout sample_defs 28 0x10000 3 m0) =
        [(R_MEM 0x10010C7D, 0), (R_MEM 0x10010C7D, 0x10003)]
   \<and> \<not> (0x37FEF3DF :: u32) \<le> 27
   \<and> g_EADC_i32ErrCode m0 = 0
   \<and> g_EADC_i32ErrCode (EADC_ConfigSampleModule sample_layout sample_defs 0x37FEF3DF 0x10000 3 m0)
        = 0x10003"
  by (simp add: EADC_ConfigSampleModule_def rmw_word_def store_word_def load_word_def
      locate_def sample_module_word_def sample_layout_def SCTL19_len_def Let_def m0_def)

text \<open>
  C5, amended. For every index above 27 each of EADC\_ConfigSampleModule,
  EADC\_SetTriggerDelayTime and EADC\_SetExtendSampleTime takes the else branch and makes
  its two stores to one word, the one at \<open>u32ModuleNum - 19\<close> words from \<open>SCTL19[0]\<close>
  in the wrapping address space: every other word is as it was, and the addressed word
  has the mask cleared and the bits set. That word lies past the nine elements of the
  array for every index below \<open>2 ^ 30 + 19\<close>; from there on the address wraps and can
  be an element again. No poll is made and, unless the addressed word is the error code
  itself, the error code stays as it was: nothing is reported.
\<close>

theorem sample_module_index_unchecked:
  assumes "27 < u32ModuleNum"
  shows "sample_module_word lay u32ModuleNum = addr_SCTL19 lay + ucast (u32ModuleNum - 19)
   \<and> unat (sample_module_word lay u32ModuleNum - addr_SCTL19 lay)
        = (unat u32ModuleNum - 19) mod 2 ^ 30
   \<and> (unat u32ModuleNum < 2 ^ 30 + 19 \<longrightarrow>
        SCTL19_len \<le> unat (sample_module_word lay u32ModuleNum - addr_SCTL19 lay))
   \<and> load_word lay a (EADC_ConfigSampleModule lay d u32ModuleNum u32TriggerSrc u32Channel s) =
       (if a = sample_module_word lay u32ModuleNum
        then (load_word lay a s AND NOT (EADC_SCTL_EXTFEN_Msk d OR EADC_SCTL_EXTREN_Msk d
                OR EADC_SCTL_TRGSEL_Msk d OR EADC_SCTL_CHSEL_Msk d))
             OR (u32TriggerSrc OR u32Channel)
        else load_word lay a s)
   \<and> load_word lay a (EADC_SetTriggerDelayTime lay d u32ModuleNum u32TriggerDelayTime
        u32DelayClockDivider s) =
       (if a = sample_module_word lay u32ModuleNum
        then (load_word lay a s AND NOT (EADC_SCTL_TRGDLDIV_Msk d OR EADC_SCTL_TRGDLCNT_Msk d))
             OR (push_bit (EADC_SCTL_TRGDLCNT_Pos d) u32TriggerDelayTime OR u32DelayClockDivider)
        else load_word lay a s)
   \<and> load_word lay a (EADC_SetExtendSampleTime lay d u32ModuleNum u32ExtendSampleTime s) =
       (if a = sample_module_word lay u32ModuleNum
        then (load_word lay a s AND NOT (EADC_SCTL_EXTSMPT_Msk d))
             OR push_bit (EADC_SCTL_EXTSMPT_Pos d) u32ExtendSampleTime
        else load_word lay a s)
   \<and> map fst (new_writes s (EADC_ConfigSampleModule lay d u32ModuleNum u32TriggerSrc u32Channel s))
        = [locate lay (sample_module_word lay u32ModuleNum),
           locate lay (sample_module_word lay u32ModuleNum)]
   \<and> map fst (new_writes s (EADC_SetTriggerDelayTime lay d u32ModuleNum u32TriggerDelayTime
        u32DelayClockDivider s))
        = [locate lay (sample_module_word lay u32ModuleNum),
           locate lay (sample_module_word lay u32ModuleNum)]
   \<and> map fst (new_writes s (EADC_SetExtendSampleTime lay d u32ModuleNum u32ExtendSampleTime s))
        = [locate lay (sample_module_word lay u32ModuleNum),
           locate lay (sample_module_word lay u32ModuleNum)]
   \<and> ticks (EADC_ConfigSampleModule lay d u32ModuleNum u32TriggerSrc u32Channel s) = ticks s
   \<and> ticks (EADC_SetTriggerDelayTime lay d u32ModuleNum u32TriggerDelayTime
        u32DelayClockDivider s) = ticks s
   \<and> ticks (EADC_SetExtendSampleTime lay d u32ModuleNum u32ExtendSampleTime s) = ticks s
   \<and> (locate lay (sample_module_word lay u32ModuleNum) \<noteq> R_ErrCode \<longrightarrow>
        g_EADC_i32ErrCode (EADC_ConfigSampleModule lay d u32ModuleNum u32TriggerSrc u32Channel s)
          = g_EADC_i32ErrCode s
        \<and> g_EADC_i32ErrCode (EADC_SetTriggerDelayTime lay d u32ModuleNum u32TriggerDelayTime
             u32DelayClockDivider s) = g_EADC_i32ErrCode s
        \<and> g_EADC_i32ErrCode (EADC_SetExtendSampleTime lay d u32ModuleNum u32ExtendSampleTime s)
             = g_EADC_i32ErrCode s)"
proof -
  let ?w = "sample_module_word lay u32ModuleNum"
  have 1: "?w = addr_SCTL19 lay + ucast (u32ModuleNum - 19)"
    and 2: "unat (?w - addr_SCTL19 lay) = (unat u32ModuleNum - 19) mod 2 ^ 30"
    using past_index [OF assms] by blast+
  from assms have gt: "27 < unat u32ModuleNum" by (simp add: word_less_nat_alt)
  have 3: "unat u32ModuleNum < 2 ^ 30 + 19 \<longrightarrow> SCTL19_len \<le> unat (?w - addr_SCTL19 lay)"
  proof
    assume "unat u32ModuleNum < 2 ^ 30 + 19"
    then have "(unat u32ModuleNum - 19) mod 2 ^ 30 = unat u32ModuleNum - 19"
      by simp
    with gt show "SCTL19_len \<le> unat (?w - addr_SCTL19 lay)"
      by (simp add: 2 SCTL19_len_def)
  qed
  have 4: "load_word lay a (rmw_word lay ?w m v s) =
      (if a = ?w then (load_word lay a s AND NOT m) OR v else load_word lay a s)" for m v
    by (simp add: rmw_word_load)
  have 5: "map fst (new_writes s (rmw_word lay ?w m v s)) = [locate lay ?w, locate lay ?w]" for m v
    by (simp add: rmw_word_frame)
  have 6: "ticks (rmw_word lay ?w m v s) = ticks s" for m v
    by (simp add: rmw_word_frame)
  have 7: "locate lay ?w \<noteq> R_ErrCode \<longrightarrow>
      g_EADC_i32ErrCode (rmw_word lay ?w m v s) = g_EADC_i32ErrCode s" for m v
    by (simp add: rmw_word_err)
  show ?thesis
    unfolding EADC_ConfigSampleModule_def EADC_SetTriggerDelayTime_def
      EADC_SetExtendSampleTime_def
    using 1 2 3 4 5 6 7 by simp
qed

theorem sample_module_index_unchecked_witness:
  "(27 :: u32) < 28 \<and> (27 :: u32) < 0x40000013
   \<and> sample_module_word sample_layout 28 = 0x10010C7D
   \<and> SCTL19_len \<le> unat (sample_module_word sample_layout 28 - addr_SCTL19 sample_layout)
   \<and> load_word sample_layout 0x10010C7D
        (EADC_ConfigSampleModule sample_layout sample_defs 28 0x10000 3 m0) = 0x10003
   \<and> load_word sample_layout 0x10010C7C
        (EADC_ConfigSampleModule sample_layout sample_defs 28 0x10000 3 m0) = 0
   \<and> sample_module_word sample_layout 0x40000013 = 0x10010C74
   \<and> addr_SCTL19 sample_layout = 0x10010C74
   \<and> load_word sample_layout 0x10010C74
        (EADC_ConfigSampleModule sample_layout sample_defs 0x40000013 0x10000 3 m0) = 0x10003"
proof -
  have h1: "(27 :: u32) < 28" by simp
  have h2: "(27 :: u32) < 0x40000013" by simp
  have w1: "sample_module_word sample_layout 28 = 0x10010C7D"
    by (simp add: sample_module_word_def sample_layout_def)
  have w2: "sample_module_word sample_layout 0x40000013 = 0x10010C74"
    by (simp add: sample_module_word_def sample_layout_def)
  have b: "addr_SCTL19 sample_layout = 0x10010C74"
    by (simp add: sample_layout_def)
  have z: "load_word sample_layout 0x10010C7D m0 = 0" "load_word sample_layout 0x10010C7C m0 = 0"
    "load_word sample_layout 0x10010C74 m0 = 0"
    by (simp_all add: load_word_def locate_def m0_def sample_layout_def SCTL19_len_def)
  note t1 = sample_module_index_unchecked [OF h1, of sample_layout _ sample_defs "0x10000" 3 m0 0 0 0]
  note t2 = sample_module_index_unchecked [OF h2, of sample_layout "0x10010C74"
      sample_defs "0x10000" 3 m0 0 0 0]
  note l1 = t1 [THEN conjunct2, THEN conjunct2, THEN conjunct2, THEN conjunct1]
  note l2 = t2 [THEN conjunct2, THEN conjunct2, THEN conjunct2, THEN conjunct1]
  have 1: "SCTL19_len \<le> unat (sample_module_word sample_layout 28 - addr_SCTL19 sample_layout)"
    using t1 [of 0, THEN conjunct2, THEN conjunct2, THEN conjunct1] by simp
  have 2: "load_word sample_layout 0x10010C7D
        (EADC_ConfigSampleModule sample_layout sample_defs 28 0x10000 3 m0) = 0x10003"
    using l1 [of "0x10010C7D"] by (simp only: w1 z) simp
  have 3: "load_word sample_layout 0x10010C7C
        (EADC_ConfigSampleModule sample_layout sample_defs 28 0x10000 3 m0) = 0"
    using l1 [of "0x10010C7C"] by (simp only: w1 z) simp
  have 4: "load_word sample_layout 0x10010C74
        (EADC_ConfigSampleModule sample_layout sample_defs 0x40000013 0x10000 3 m0) = 0x10003"
    using l2 by (simp only: w2 z) simp
  from h1 h2 w1 1 2 3 w2 b 4 show ?thesis by blast
qed

section \<open>Properties of the USCI SPI driver\<close>

subsection \<open>The rounding of the divider\<close>

lemma nearest_quotient_bounds:
  assumes "0 < b"
  shows "2 * b * nearest_quotient h b \<le> 2 * h + b"
    and "2 * h + b < 2 * b * (nearest_quotient h b + 1)"
proof -
  let ?n = "nearest_quotient h b"
  have "2 * b * ?n + (2 * h + b) mod (2 * b) = 2 * h + b"
    unfolding nearest_quotient_def by simp
  moreover have "(2 * h + b) mod (2 * b) < 2 * b"
    using assms by simp
  ultimately show "2 * b * ?n \<le> 2 * h + b" "2 * h + b < 2 * b * (?n + 1)"
    by simp_all
qed

lemma scheme_is_nearest:
  assumes "0 < b"
  shows "((h * 10) div b + 5) div 10 = nearest_quotient h b"
proof (rule div_nat_eqI)
  let ?n = "nearest_quotient h b"
  let ?p = "b * ?n"
  have lo: "2 * ?p \<le> 2 * h + b" and hi: "2 * h + b < 2 * ?p + 2 * b"
    using nearest_quotient_bounds [OF assms, of h] by (simp_all add: algebra_simps)
  show "10 * ?n \<le> (h * 10) div b + 5"
  proof (cases "?n = 0")
    case True
    then show ?thesis by simp
  next
    case False
    then have "(10 * ?n - 5) * b = 10 * ?p - 5 * b"
      by (simp add: algebra_simps diff_mult_distrib)
    also have "\<dots> \<le> h * 10"
      using lo by arith
    finally have "10 * ?n - 5 \<le> (h * 10) div b"
      using assms by (simp add: less_eq_div_iff_mult_less_eq)
    then show ?thesis by arith
  qed
  have "h * 10 < (10 * ?n + 5) * b"
    using hi by (simp add: algebra_simps)
  then have "(h * 10) div b < 10 * ?n + 5"
    using assms by (simp add: div_less_iff_less_mult)
  then show "(h * 10) div b + 5 < 10 * Suc ?n"
    by simp
qed

lemma nearest_quotient_pos:
  assumes "0 < b" "b \<le> 2 * h"
  shows "0 < nearest_quotient h b"
proof -
  have "2 * b \<le> 2 * h + b" using assms by simp
  then have "(2 * b) div (2 * b) \<le> (2 * h + b) div (2 * b)"
    by (rule div_le_mono)
  then show ?thesis using assms by (simp add: nearest_quotient_def)
qed

lemma clkdiv_expr_unat:
  fixes pclk bus :: u32
  assumes bus: "bus \<noteq> 0"
    and fit: "unat (pclk div 2) * 10 < 2 ^ 32"
    and low: "unat bus \<le> 2 * unat (pclk div 2)"
  shows "unat (clkdiv_expr pclk bus) + 1 = nearest_quotient (unat pclk div 2) (unat bus)"
    and "nearest_quotient (unat pclk div 2) (unat bus) \<le> 429496729"
proof -
  let ?h = "unat (pclk div 2)"
  let ?b = "unat bus"
  let ?n = "nearest_quotient ?h ?b"
  have b: "0 < ?b" using bus by (simp add: unat_gt_0)
  have h: "?h = unat pclk div 2" by (simp add: unat_div)
  have m: "unat ((pclk div 2) * 10) = ?h * 10"
    using fit by (simp add: unat_word_ariths)
  have q: "unat (((pclk div 2) * 10) div bus) = (?h * 10) div ?b"
    by (simp add: unat_div m)
  have "(?h * 10) div ?b \<le> ?h * 10" by (rule div_le_dividend)
  moreover have "x \<le> y * 10 \<Longrightarrow> y * 10 < 4294967296 \<Longrightarrow> x + 5 < 4294967296" for x y :: nat
    by arith
  moreover have "(2 :: nat) ^ 32 = 4294967296"
    by simp
  ultimately have qb: "(?h * 10) div ?b + 5 < 2 ^ 32"
    using fit by metis
  have "unat (((pclk div 2) * 10) div bus) + unat (5 :: u32) < 2 ^ LENGTH(32)"
    using qb by (simp only: q) simp
  then have "unat (((pclk div 2) * 10) div bus + 5) =
      unat (((pclk div 2) * 10) div bus) + unat (5 :: u32)"
    by (rule unat_add_lem [THEN iffD1])
  then have a: "unat (((pclk div 2) * 10) div bus + 5) = (?h * 10) div ?b + 5"
    by (simp only: q) simp
  have r: "unat ((((pclk div 2) * 10) div bus + 5) div 10) = ?n"
    by (simp add: unat_div a scheme_is_nearest [OF b])
  have pos: "0 < ?n" using b low by (rule nearest_quotient_pos)
  have "?n = ((?h * 10) div ?b + 5) div 10" by (simp add: scheme_is_nearest [OF b])
  with qb show le: "nearest_quotient (unat pclk div 2) ?b \<le> 429496729"
    unfolding h by simp
  from pos r have nz: "(((pclk div 2) * 10) div bus + 5) div 10 \<noteq> 0"
    by (metis less_numeral_extra(3) unat_0)
  have "unat (clkdiv_expr pclk bus) = ?n - 1"
    unfolding clkdiv_expr_def using unat_minus_one [OF nz] r by simp
  with pos show "unat (clkdiv_expr pclk bus) + 1 = nearest_quotient (unat pclk div 2) ?b"
    unfolding h by simp
qed

lemma busclk_expr_value:
  fixes pclk dv :: u32
  assumes "unat dv + 1 \<le> 429496729"
  shows "busclk_expr pclk dv = Inr (pclk div (2 * (dv + 1)))"
    and "unat (pclk div (2 * (dv + 1))) = unat pclk div (2 * (unat dv + 1))"
proof -
  have s: "unat (dv + 1) = unat dv + 1"
    using assms by (simp add: unat_word_ariths)
  have t: "unat (2 * (dv + 1)) = 2 * (unat dv + 1)"
    using assms by (simp add: unat_word_ariths s del: distrib_left_numeral)
  then have "unat (2 * (dv + 1)) \<noteq> 0"
    by simp
  then have nz: "2 * (dv + 1) \<noteq> 0"
    by (simp only: unat_eq_0 not_False_eq_True)
  have e: "push_bit 1 (dv + 1) = 2 * (dv + 1)"
    by (simp add: push_bit_eq_mult)
  show "busclk_expr pclk dv = Inr (pclk div (2 * (dv + 1)))"
    unfolding busclk_expr_def e using nz by (simp only: if_False)
  show "unat (pclk div (2 * (dv + 1))) = unat pclk div (2 * (unat dv + 1))"
    by (simp only: unat_div t)
qed

text \<open>
  C8, as stated, fails in two ways. When the bus clock exceeds the peripheral clock the
  rounded quotient is 0, the subtraction wraps the divider to 0xFFFFFFFF, and the
  frequency expression divides by \<open>(0xFFFFFFFF + 1) << 1 = 0\<close>: with PCLK 100 and bus
  clock 1000 neither helper returns a frequency. When half the peripheral clock times
  ten does not fit 32 bits the product wraps: with PCLK 0xFFFFFFFF and bus clock 1 the
  divider is 429496728, not the nearest quotient less one, 2147483646.
\<close>

theorem bus_clock_rounding_counterexample:
  "(1000 :: u32) \<noteq> 0
   \<and> clkdiv_expr 100 1000 = 0xFFFFFFFF
   \<and> fst (USPI_SetBusClock sample_uspi_defs 100 USPI0 1000 u0) = Inl DivisionByZero
   \<and> fst (USPI_Open sample_uspi_defs 100 0 USPI0 0 0 8 1000 u0) = Inl DivisionByZero
   \<and> clkdiv_expr 0xFFFFFFFF 1 = 429496728
   \<and> nearest_quotient (unat (0xFFFFFFFF :: u32) div 2) (unat (1 :: u32)) - 1 = 2147483646"
  by (simp add: clkdiv_expr_def USPI_SetBusClock_def USPI_Open_def busclk_expr_def
      nearest_quotient_def Let_def)

lemma fst_SetBusClock:
  "u32BusClock \<noteq> 0 \<Longrightarrow>
   fst (USPI_SetBusClock d PCLK1 USPI0 u32BusClock r) =
     busclk_expr PCLK1 (clkdiv_expr PCLK1 u32BusClock)"
  by (simp add: USPI_SetBusClock_def Let_def)

lemma fst_Open:
  "u32BusClock \<noteq> 0 \<Longrightarrow>
   fst (USPI_Open d PCLK1 stack USPI0 u32MasterSlave u32SPIMode u32DataWidth u32BusClock r) =
     busclk_expr PCLK1 (clkdiv_expr PCLK1 u32BusClock)"
  by (simp add: USPI_Open_def Let_def)

lemma clkdiv_expr_wraps:
  fixes pclk bus :: u32
  assumes fit: "unat (pclk div 2) * 10 < 2 ^ 32"
    and high: "2 * unat (pclk div 2) < unat bus"
  shows "clkdiv_expr pclk bus = - 1"
proof -
  let ?h = "unat (pclk div 2)"
  let ?b = "unat bus"
  have m: "unat ((pclk div 2) * 10) = ?h * 10"
    using fit by (simp add: unat_word_ariths)
  have q: "unat (((pclk div 2) * 10) div bus) = (?h * 10) div ?b"
    by (simp add: unat_div m)
  have "?h * 10 < 5 * ?b" using high by simp
  then have "(?h * 10) div ?b < 5"
    using high by (simp add: div_less_iff_less_mult)
  then have "unat (((pclk div 2) * 10) div bus) < unat (5 :: u32)"
    by (simp only: q) simp
  then have lt: "((pclk div 2) * 10) div bus < 5"
    by (simp only: word_less_nat_alt)
  then have "((pclk div 2) * 10) div bus + 5 < 10"
    by (simp add: word_less_nat_alt unat_word_ariths)
  then have "(((pclk div 2) * 10) div bus + 5) div 10 = 0"
    by (simp add: word_less_nat_alt unat_div flip: unat_eq_0)
  then show ?thesis by (simp add: clkdiv_expr_def)
qed

lemma busclk_expr_wrapped: "busclk_expr pclk (- 1) = Inl DivisionByZero"
  by (simp add: busclk_expr_def)

lemma SetBusClock_other:
  "fst (USPI_SetBusClock d PCLK1 USPI_other u32BusClock r) = Inl DivisionByZero"
proof (cases "u32BusClock = 0")
  case True
  then show ?thesis by (simp add: USPI_SetBusClock_def)
next
  case False
  have "clkdiv_expr 0 u32BusClock = - 1"
    by (simp add: clkdiv_expr_def)
  with False show ?thesis
    by (simp add: USPI_SetBusClock_def Let_def busclk_expr_wrapped)
qed

lemma Open_other:
  "fst (USPI_Open d PCLK1 stack USPI_other u32MasterSlave u32SPIMode u32DataWidth u32BusClock r) =
   fst (USPI_Open d stack PCLK1 USPI0 u32MasterSlave u32SPIMode u32DataWidth u32BusClock r)"
  by (simp add: USPI_Open_def Let_def)

text \<open>
  C8, amended. For every nonzero bus clock and every peripheral clock whose half times
  ten fits 32 bits, with the handle USPI0: when the bus clock is at most twice half the
  peripheral clock, the divider plus one is the integer nearest to (PCLK / 2) / bus
  clock (halves rounded up: twice its distance from the quotient is at most one), and
  both helpers return PCLK / (2 * (divider + 1)) with nothing wrapping; when the bus
  clock is above twice half the peripheral clock, the divider wraps to 0xFFFFFFFF and
  both helpers end in a division by zero. With any other handle USPI\_SetBusClock takes
  the peripheral clock to be 0 and ends in a division by zero, and USPI\_Open computes
  as for USPI0 with whatever its uninitialised local holds as the peripheral clock.
  USPI\_Open returns 0 when the bus clock is 0.
\<close>

theorem bus_clock_rounding:
  assumes bus: "u32BusClock \<noteq> 0"
    and fit: "unat (PCLK1 div 2) * 10 < 2 ^ 32"
  shows "(unat u32BusClock \<le> 2 * unat (PCLK1 div 2) \<longrightarrow>
           unat (clkdiv_expr PCLK1 u32BusClock) + 1 =
             nearest_quotient (unat PCLK1 div 2) (unat u32BusClock)
         \<and> 2 * unat u32BusClock * nearest_quotient (unat PCLK1 div 2) (unat u32BusClock)
             \<le> 2 * (unat PCLK1 div 2) + unat u32BusClock
         \<and> 2 * (unat PCLK1 div 2) + unat u32BusClock
             < 2 * unat u32BusClock * (nearest_quotient (unat PCLK1 div 2) (unat u32BusClock) + 1)
         \<and> fst (USPI_SetBusClock d PCLK1 USPI0 u32BusClock r) =
             Inr (PCLK1 div (2 * (clkdiv_expr PCLK1 u32BusClock + 1)))
         \<and> fst (USPI_Open d PCLK1 stack USPI0 u32MasterSlave u32SPIMode u32DataWidth
               u32BusClock r') =
             Inr (PCLK1 div (2 * (clkdiv_expr PCLK1 u32BusClock + 1)))
         \<and> unat (PCLK1 div (2 * (clkdiv_expr PCLK1 u32BusClock + 1))) =
             unat PCLK1 div (2 * (unat (clkdiv_expr PCLK1 u32BusClock) + 1)))
       \<and> (2 * unat (PCLK1 div 2) < unat u32BusClock \<longrightarrow>
           clkdiv_expr PCLK1 u32BusClock = 0xFFFFFFFF
         \<and> fst (USPI_SetBusClock d PCLK1 USPI0 u32BusClock r) = Inl DivisionByZero
         \<and> fst (USPI_Open d PCLK1 stack USPI0 u32MasterSlave u32SPIMode u32DataWidth
               u32BusClock r') = Inl DivisionByZero)
       \<and> fst (USPI_SetBusClock d PCLK1 USPI_other u32BusClock r) = Inl DivisionByZero
       \<and> fst (USPI_Open d PCLK1 stack USPI_other u32MasterSlave u32SPIMode u32DataWidth
             u32BusClock r') =
           fst (USPI_Open d stack PCLK1 USPI0 u32MasterSlave u32SPIMode u32DataWidth
             u32BusClock r')
       \<and> fst (USPI_Open d PCLK1 stack uspi u32MasterSlave u32SPIMode u32DataWidth 0 r') = Inr 0"
proof -
  let ?dv = "clkdiv_expr PCLK1 u32BusClock"
  let ?n = "nearest_quotient (unat PCLK1 div 2) (unat u32BusClock)"
  have b: "0 < unat u32BusClock" using bus by (simp add: unat_gt_0)
  have A: "unat ?dv + 1 = ?n
         \<and> 2 * unat u32BusClock * ?n \<le> 2 * (unat PCLK1 div 2) + unat u32BusClock
         \<and> 2 * (unat PCLK1 div 2) + unat u32BusClock < 2 * unat u32BusClock * (?n + 1)
         \<and> fst (USPI_SetBusClock d PCLK1 USPI0 u32BusClock r) = Inr (PCLK1 div (2 * (?dv + 1)))
         \<and> fst (USPI_Open d PCLK1 stack USPI0 u32MasterSlave u32SPIMode u32DataWidth
               u32BusClock r') = Inr (PCLK1 div (2 * (?dv + 1)))
         \<and> unat (PCLK1 div (2 * (?dv + 1))) = unat PCLK1 div (2 * (unat ?dv + 1))"
    if low: "unat u32BusClock \<le> 2 * unat (PCLK1 div 2)"
  proof -
    have 1: "unat ?dv + 1 = ?n" and le: "?n \<le> 429496729"
      using clkdiv_expr_unat [OF bus fit low] by simp_all
    have 2: "2 * unat u32BusClock * ?n \<le> 2 * (unat PCLK1 div 2) + unat u32BusClock"
      and 3: "2 * (unat PCLK1 div 2) + unat u32BusClock < 2 * unat u32BusClock * (?n + 1)"
      using nearest_quotient_bounds [OF b] by blast+
    have s: "unat ?dv + 1 \<le> 429496729" using 1 le by simp
    have 4: "fst (USPI_SetBusClock d PCLK1 USPI0 u32BusClock r) = Inr (PCLK1 div (2 * (?dv + 1)))"
      by (simp only: fst_SetBusClock [OF bus] busclk_expr_value(1) [OF s])
    have 5: "fst (USPI_Open d PCLK1 stack USPI0 u32MasterSlave u32SPIMode u32DataWidth
               u32BusClock r') = Inr (PCLK1 div (2 * (?dv + 1)))"
      by (simp only: fst_Open [OF bus] busclk_expr_value(1) [OF s])
    have 6: "unat (PCLK1 div (2 * (?dv + 1))) = unat PCLK1 div (2 * (unat ?dv + 1))"
      by (rule busclk_expr_value(2) [OF s])
    from 1 2 3 4 5 6 show ?thesis by blast
  qed
  have B: "?dv = 0xFFFFFFFF
         \<and> fst (USPI_SetBusClock d PCLK1 USPI0 u32BusClock r) = Inl DivisionByZero
         \<and> fst (USPI_Open d PCLK1 stack USPI0 u32MasterSlave u32SPIMode u32DataWidth
               u32BusClock r') = Inl DivisionByZero"
    if high: "2 * unat (PCLK1 div 2) < unat u32BusClock"
  proof -
    have w: "?dv = - 1" by (rule clkdiv_expr_wraps [OF fit high])
    then have 1: "?dv = 0xFFFFFFFF" by simp
    have 2: "fst (USPI_SetBusClock d PCLK1 USPI0 u32BusClock r) = Inl DivisionByZero"
      by (simp only: fst_SetBusClock [OF bus] w busclk_expr_wrapped)
    have 3: "fst (USPI_Open d PCLK1 stack USPI0 u32MasterSlave u32SPIMode u32DataWidth
               u32BusClock r') = Inl DivisionByZero"
      by (simp only: fst_Open [OF bus] w busclk_expr_wrapped)
    from 1 2 3 show ?thesis by blast
  qed
  have C: "fst (USPI_SetBusClock d PCLK1 USPI_other u32BusClock r) = Inl DivisionByZero"
    by (rule SetBusClock_other)
  have D: "fst (USPI_Open d PCLK1 stack USPI_other u32MasterSlave u32SPIMode u32DataWidth
             u32BusClock r') =
           fst (USPI_Open d stack PCLK1 USPI0 u32MasterSlave u32SPIMode u32DataWidth
             u32BusClock r')"
    by (rule Open_other)
  have E: "fst (USPI_Open d PCLK1 stack uspi u32MasterSlave u32SPIMode u32DataWidth 0 r') = Inr 0"
    by (simp add: USPI_Open_def Let_def)
  from A B C D E show ?thesis by blast
qed

theorem bus_clock_rounding_witness:
  "(1000000 :: u32) \<noteq> 0
   \<and> unat ((48000000 :: u32) div 2) * 10 < 2 ^ 32
   \<and> unat (1000000 :: u32) \<le> 2 * unat ((48000000 :: u32) div 2)
   \<and> clkdiv_expr 48000000 1000000 = 23
   \<and> nearest_quotient (unat (48000000 :: u32) div 2) (unat (1000000 :: u32)) = 24
   \<and> fst (USPI_SetBusClock sample_uspi_defs 48000000 USPI0 1000000 u0) = Inr 1000000
   \<and> fst (USPI_Open sample_uspi_defs 48000000 0 USPI0 0 0 8 1000000 u0) = Inr 1000000
   \<and> (1000 :: u32) \<noteq> 0
   \<and> unat ((100 :: u32) div 2) * 10 < 2 ^ 32
   \<and> 2 * unat ((100 :: u32) div 2) < unat (1000 :: u32)
   \<and> clkdiv_expr 100 1000 = 0xFFFFFFFF
   \<and> fst (USPI_SetBusClock sample_uspi_defs 100 USPI0 1000 u0) = Inl DivisionByZero
   \<and> fst (USPI_SetBusClock sample_uspi_defs 48000000 USPI_other 1000000 u0) = Inl DivisionByZero"
proof -
  have h1: "(1000000 :: u32) \<noteq> 0" by simp
  have h2: "unat ((48000000 :: u32) div 2) * 10 < 2 ^ 32" by simp
  have h3: "unat (1000000 :: u32) \<le> 2 * unat ((48000000 :: u32) div 2)" by simp
  have g1: "(1000 :: u32) \<noteq> 0" by simp
  have g2: "unat ((100 :: u32) div 2) * 10 < 2 ^ 32" by simp
  have g3: "2 * unat ((100 :: u32) div 2) < unat (1000 :: u32)" by simp
  have c: "clkdiv_expr 48000000 1000000 = 23" by (simp add: clkdiv_expr_def)
  note a = bus_clock_rounding [OF h1 h2, of sample_uspi_defs u0 0 0 0 8 u0 USPI0]
  note b = bus_clock_rounding [OF g1 g2, of sample_uspi_defs u0 0 0 0 8 u0 USPI0]
  from a h3 have 1:
    "nearest_quotient (unat (48000000 :: u32) div 2) (unat (1000000 :: u32)) = 24
     \<and> fst (USPI_SetBusClock sample_uspi_defs 48000000 USPI0 1000000 u0) = Inr 1000000
     \<and> fst (USPI_Open sample_uspi_defs 48000000 0 USPI0 0 0 8 1000000 u0) = Inr 1000000
     \<and> fst (USPI_SetBusClock sample_uspi_defs 48000000 USPI_other 1000000 u0) = Inl DivisionByZero"
    by (simp add: c)
  from b g3 have 2:
    "clkdiv_expr 100 1000 = 0xFFFFFFFF
     \<and> fst (USPI_SetBusClock sample_uspi_defs 100 USPI0 1000 u0) = Inl DivisionByZero"
    by blast
  from h1 h2 h3 c 1 g1 g2 g3 2 show ?thesis by blast
qed

subsection \<open>Division by the bus clock\<close>

text \<open>
  C9. USPI\_SetBusClock divides by \<open>u32BusClock\<close> with no test: with a bus clock of 0
  the call ends in the division by zero, before any register is written. USPI\_Open
  tests \<open>u32BusClock != 0\<close> around the same expression: with a bus clock of 0 it skips
  it, programs the divider 0 and returns 0.
\<close>

theorem set_bus_clock_divides_unguarded:
  "USPI_SetBusClock d PCLK1 uspi 0 r = (Inl DivisionByZero, r)
   \<and> fst (USPI_Open d PCLK1 stack uspi u32MasterSlave u32SPIMode u32DataWidth 0 r) = Inr 0
   \<and> USPI_BRGEN (snd (USPI_Open d PCLK1 stack uspi u32MasterSlave u32SPIMode u32DataWidth 0 r))
        = USPI_BRGEN r AND NOT (USPI_BRGEN_CLKDIV_Msk d)"
  by (simp add: USPI_SetBusClock_def USPI_Open_def open_protocol_def open_line_format_def
      open_mode_clock_def set_CLKDIV_def Let_def)

subsection \<open>The data width\<close>

lemma disjoint_bits:
  fixes a m :: u32
  assumes "a AND m = 0"
  shows "bit a n \<Longrightarrow> bit m n \<Longrightarrow> False"
proof -
  assume "bit a n" "bit m n"
  then have "bit (a AND m) n" by (simp add: bit_and_iff)
  with assms show False by simp
qed

lemma within_bits:
  fixes v m :: u32
  assumes "v AND m = v"
  shows "bit v n \<Longrightarrow> bit m n"
proof -
  assume "bit v n"
  then have "bit (v AND m) n" using assms by simp
  then show "bit m n" by (simp add: bit_and_iff)
qed

lemma field_store:
  fixes l m v lsb c :: u32
  assumes v: "v AND m = v" and lsb: "lsb AND m = 0" and c: "c AND m = 0"
  shows "((((l AND NOT m) OR v) AND NOT lsb) OR c) AND m = v"
  using within_bits [OF v] disjoint_bits [OF lsb] disjoint_bits [OF c]
  by (auto simp add: bit_eq_iff bit_and_iff bit_or_iff bit_not_iff)

lemma rest_kept:
  fixes l m v lsb c :: u32
  shows "((((l AND NOT m) OR push_bit p w) AND NOT lsb) OR c) AND NOT (m OR lsb OR c) =
         (l OR push_bit p w) AND NOT (m OR lsb OR c)"
  by (auto simp add: bit_eq_iff bit_and_iff bit_or_iff bit_not_iff)

lemma width_in_field:
  fixes w :: u32
  assumes "w < 16" "p + 4 \<le> 32"
  shows "push_bit p w AND push_bit p 0xF = push_bit p w"
    and "drop_bit p (push_bit p w) = w"
proof -
  have "w AND mask 4 = w"
    using assms(1) by (simp add: less_mask_eq)
  then have w: "w AND 0xF = w" by (simp add: mask_eq_exp_minus_1)
  show "push_bit p w AND push_bit p 0xF = push_bit p w"
    by (simp add: w flip: push_bit_and)
  have t: "take_bit 4 w = w"
    using assms(1) by (simp add: take_bit_eq_mask less_mask_eq)
  have small: "n < 4" if "bit w n" for n
  proof -
    from that have "bit (take_bit 4 w) n" by (simp only: t)
    then show ?thesis by (simp add: bit_take_bit_iff)
  qed
  show "drop_bit p (push_bit p w) = w"
  proof (rule bit_eqI)
    fix n
    show "bit (drop_bit p (push_bit p w)) n \<longleftrightarrow> bit w n"
      using small [of n] assms(2) by (auto simp add: bit_drop_bit_eq bit_push_bit_iff)
  qed
qed

lemma rest_kept2:
  fixes l m v lsb c :: u32
  assumes v: "v AND m = v"
  shows "((((l AND NOT m) OR v) AND NOT lsb) OR c) AND NOT (m OR lsb OR c) =
         l AND NOT (m OR lsb OR c)"
  using within_bits [OF v]
  by (auto simp add: bit_eq_iff bit_and_iff bit_or_iff bit_not_iff)

lemma open_linectl:
  "USPI_LINECTL (snd (USPI_Open d PCLK1 stack uspi u32MasterSlave u32SPIMode u32DataWidth
      u32BusClock r)) =
     (((USPI_LINECTL r AND NOT (USPI_LINECTL_DWIDTH_Msk d))
         OR push_bit (USPI_LINECTL_DWIDTH_Pos d) (if 16 \<le> u32DataWidth then 0 else u32DataWidth))
        AND NOT (USPI_LINECTL_LSB_Msk d))
     OR (if u32MasterSlave = USPI_MASTER d then USPI_LINECTL_CTLOINV_Msk d else 0)"
  by (simp add: USPI_Open_def open_protocol_def open_line_format_def open_mode_clock_def
      set_CLKDIV_def Let_def)

text \<open>
  C10. Provided DWIDTH is a four-bit field inside the register (its mask is 0xF shifted
  to its position) and neither LSB nor CTLOINV overlaps it: after USPI\_Open the DWIDTH
  field of LINECTL holds 0 for every \<open>u32DataWidth\<close> of 16 or more and \<open>u32DataWidth\<close>
  itself below 16, and every bit of LINECTL outside DWIDTH, LSB and, in master mode,
  CTLOINV is as it was.
\<close>

theorem open_data_width:
  assumes msk: "USPI_LINECTL_DWIDTH_Msk d = push_bit (USPI_LINECTL_DWIDTH_Pos d) 0xF"
    and pos: "USPI_LINECTL_DWIDTH_Pos d + 4 \<le> 32"
    and lsb: "USPI_LINECTL_LSB_Msk d AND USPI_LINECTL_DWIDTH_Msk d = 0"
    and inv: "USPI_LINECTL_CTLOINV_Msk d AND USPI_LINECTL_DWIDTH_Msk d = 0"
  shows "field_value (USPI_LINECTL_DWIDTH_Msk d) (USPI_LINECTL_DWIDTH_Pos d)
           (USPI_LINECTL (snd (USPI_Open d PCLK1 stack uspi u32MasterSlave u32SPIMode
              u32DataWidth u32BusClock r)))
         = (if 16 \<le> u32DataWidth then 0 else u32DataWidth)
       \<and> USPI_LINECTL (snd (USPI_Open d PCLK1 stack uspi u32MasterSlave u32SPIMode
              u32DataWidth u32BusClock r))
           AND NOT (USPI_LINECTL_DWIDTH_Msk d OR USPI_LINECTL_LSB_Msk d
                      OR (if u32MasterSlave = USPI_MASTER d then USPI_LINECTL_CTLOINV_Msk d else 0))
         = USPI_LINECTL r
           AND NOT (USPI_LINECTL_DWIDTH_Msk d OR USPI_LINECTL_LSB_Msk d
                      OR (if u32MasterSlave = USPI_MASTER d then USPI_LINECTL_CTLOINV_Msk d else 0))"
proof -
  let ?m = "USPI_LINECTL_DWIDTH_Msk d"
  let ?p = "USPI_LINECTL_DWIDTH_Pos d"
  let ?w = "if 16 \<le> u32DataWidth then 0 else u32DataWidth"
  let ?c = "if u32MasterSlave = USPI_MASTER d then USPI_LINECTL_CTLOINV_Msk d else 0"
  let ?l = "USPI_LINECTL (snd (USPI_Open d PCLK1 stack uspi u32MasterSlave u32SPIMode
              u32DataWidth u32BusClock r))"
  have w: "?w < 16" by (simp add: not_le)
  have v: "push_bit ?p ?w AND ?m = push_bit ?p ?w"
    unfolding msk by (rule width_in_field(1) [OF w pos])
  have c: "?c AND ?m = 0" using inv by simp
  have "?l AND ?m = push_bit ?p ?w"
    unfolding open_linectl by (rule field_store [OF v lsb c])
  then have 1: "field_value ?m ?p ?l = ?w"
    unfolding field_value_def using width_in_field(2) [OF w pos] by simp
  have 2: "?l AND NOT (?m OR USPI_LINECTL_LSB_Msk d OR ?c) =
           USPI_LINECTL r AND NOT (?m OR USPI_LINECTL_LSB_Msk d OR ?c)"
    unfolding open_linectl by (rule rest_kept2 [OF v])
  from 1 2 show ?thesis by (rule conjI)
qed

theorem open_data_width_witness:
  "USPI_LINECTL_DWIDTH_Msk sample_uspi_defs = push_bit (USPI_LINECTL_DWIDTH_Pos sample_uspi_defs) 0xF
   \<and> USPI_LINECTL_DWIDTH_Pos sample_uspi_defs + 4 \<le> 32
   \<and> USPI_LINECTL_LSB_Msk sample_uspi_defs AND USPI_LINECTL_DWIDTH_Msk sample_uspi_defs = 0
   \<and> USPI_LINECTL_CTLOINV_Msk sample_uspi_defs AND USPI_LINECTL_DWIDTH_Msk sample_uspi_defs = 0
   \<and> field_value 0xF00 8
        (USPI_LINECTL (snd (USPI_Open sample_uspi_defs 48000000 0 USPI0 0 0 8 1000000 u0))) = 8
   \<and> field_value 0xF00 8
        (USPI_LINECTL (snd (USPI_Open sample_uspi_defs 48000000 0 USPI0 0 0 16 1000000 u0))) = 0
   \<and> field_value 0xF00 8
        (USPI_LINECTL (snd (USPI_Open sample_uspi_defs 48000000 0 USPI0 0 0 200 1000000 u0))) = 0
   \<and> USPI_LINECTL (snd (USPI_Open sample_uspi_defs 48000000 0 USPI0 0 0 8 1000000 u0))
        AND NOT 0xF81 = 0xFFFFF07E"
proof -
  have h1: "USPI_LINECTL_DWIDTH_Msk sample_uspi_defs =
      push_bit (USPI_LINECTL_DWIDTH_Pos sample_uspi_defs) 0xF"
    by (simp add: sample_uspi_defs_def)
  have h2: "USPI_LINECTL_DWIDTH_Pos sample_uspi_defs + 4 \<le> 32"
    by (simp add: sample_uspi_defs_def)
  have h3: "USPI_LINECTL_LSB_Msk sample_uspi_defs AND USPI_LINECTL_DWIDTH_Msk sample_uspi_defs = 0"
    by (simp add: sample_uspi_defs_def)
  have h4: "USPI_LINECTL_CTLOINV_Msk sample_uspi_defs AND USPI_LINECTL_DWIDTH_Msk sample_uspi_defs = 0"
    by (simp add: sample_uspi_defs_def)
  note t = open_data_width [OF h1 h2 h3 h4, of 48000000 0 USPI0 0 0 _ 1000000 u0]
  show ?thesis
    using h1 h2 h3 h4 t [of 8] t [of 16] t [of 200]
    by (simp add: sample_uspi_defs_def u0_def)
qed

end
